theory Spec2Isabelle
  imports Complex_Main
begin

section \<open>Cell Analyzer: measurement records, calibration and project files\<close>

text \<open>
  A shallow embedding of \<^verbatim>\<open>Har_app.py\<close>: the state of a \<^verbatim>\<open>CellAnalyzerTab\<close>
  and of the \<^verbatim>\<open>CellAnalyzerApp\<close> window as records, their methods as functions
  from state to state.

  \<^item> Python floats are modelled as \<open>real\<close>, Python ints as \<open>int\<close>, array sizes as \<open>nat\<close>.
    The result of \<^verbatim>\<open>np.sqrt\<close> is the one float that can be \<^verbatim>\<open>nan\<close> here (on a negative
    argument); it and what is computed from it are values of \<open>np_float\<close>.
  \<^item> A contour is the list of its points: the numpy array of shape \<open>(n, 1, 2)\<close> that
    OpenCV returns and the nested list \<^verbatim>\<open>contour.tolist()\<close> stored under
    \<^verbatim>\<open>'contour_data'\<close> are the same list of integer pairs, so
    \<^verbatim>\<open>np.array(.., dtype=np.int32)\<close> and \<^verbatim>\<open>tolist()\<close> are the identity.
  \<^item> The functions of OpenCV, of the Python standard library and of Qt that the methods
    call are not part of the program. They are the fields of a record \<open>library\<close> that
    every method takes as its first argument; images are values of a type \<open>'img\<close> that
    only the library looks into.
  \<^item> An exception that leaves a method is the result \<open>Inl e\<close>; a method that returns
    gives \<open>Inr\<close> of the new state. An exception caught inside a method is a branch of
    that method, with the assignments made before the raise kept.
  \<^item> Of the widgets, the model keeps what the methods read back: the two calibration
    text fields, the ids in column 0 of the measurement table, and the messages sent to
    the status bar, to the line-length label and to error dialogs (each message as a
    constructor carrying its unformatted arguments). The graphics scene, pens, the
    highlight and the \<open>\<plusminus>\<close> error columns of the table are display only and left out;
    the outline item of a record is kept as the path that \<^verbatim>\<open>draw_contour\<close> builds.
\<close>

subsection \<open>Data\<close>

type_synonym point = "int \<times> int"
type_synonym contour = "point list"
type_synonym scene_pos = "real \<times> real"
type_synonym bytes = "string"

datatype py_error =
    NoImageData            \<comment> \<open>\<^verbatim>\<open>ValueError("No image data found in state.")\<close>\<close>
  | InvalidProjectFormat   \<comment> \<open>\<^verbatim>\<open>ValueError("Invalid project file format.")\<close>\<close>
  | Base64Error            \<comment> \<open>\<^verbatim>\<open>binascii.Error\<close>, a \<^verbatim>\<open>ValueError\<close>\<close>
  | IOError
  | JSONDecodeError
  | IndexError
  | ZeroDivisionError
  | AttributeError
  | TypeError
  | KeyError
  | Cv2Error               \<comment> \<open>\<^verbatim>\<open>cv2.error\<close>\<close>

text \<open>A float that may be \<^verbatim>\<open>nan\<close>.\<close>

datatype np_float = Finite real | NaN

datatype message =
    PleaseImport           \<comment> \<open>"Please import an image or load a project from the 'File' menu."\<close>
  | CellAdded int real     \<comment> \<open>"Cell {id} added. Area: {area} ..."\<close>
  | NothingSelected        \<comment> \<open>"No measurement selected to delete."\<close>
  | DeletedCell int        \<comment> \<open>"Deleted Cell ID: {id}"\<close>
  | LineDrawn np_float         \<comment> \<open>"Line drawn. Length: {length} ..."\<close>
  | DimensionsUpdated      \<comment> \<open>"Image dimensions updated. Recalculating all measurements..."\<close>
  | NoImageLoaded          \<comment> \<open>"No image loaded. Please load an image first."\<close>
  | InvalidInput           \<comment> \<open>"Invalid input. Please enter numbers for dimensions."\<close>
  | ScaledToFit            \<comment> \<open>"Image scaled to fit."\<close>
  | NoImageToScale         \<comment> \<open>"No image to auto-scale."\<close>
  | CouldNotLoadImage      \<comment> \<open>"Error: Could not load image from provided data."\<close>
  | LoadedImage nat        \<comment> \<open>"Loaded image into tab with {n} measurements."\<close>
  | ErrorLoadingProject    \<comment> \<open>"Error loading project."\<close>
  | ProjectLoaded          \<comment> \<open>"Project loaded from {path}"\<close>
  | ProjectSaved           \<comment> \<open>"Project saved to {path}"\<close>
  | Welcome                \<comment> \<open>"Welcome to Cell Analyzer. ..."\<close>

datatype dialog =
    LoadError py_error     \<comment> \<open>critical box "Load Error": "Failed to load project: {e}"\<close>
  | SaveErrorNoTabs        \<comment> \<open>warning box "Save Error": "No tabs are open to save."\<close>

datatype mouse_button = LeftButton | RightButton | MiddleButton

record mouse_event =
  button :: mouse_button
  pos :: scene_pos         \<comment> \<open>\<^verbatim>\<open>self.view.mapToScene(event.pos())\<close>\<close>

text \<open>The dictionary built by \<^verbatim>\<open>add_measurement_to_table\<close>.\<close>

record measurement =
  cell_id :: int           \<comment> \<open>key \<^verbatim>\<open>'id'\<close>\<close>
  area_um2 :: real
  width_um :: real
  height_um :: real
  contour_data :: contour
  outline_item :: "point list"

text \<open>
  The JSON objects of a project file. A key read with \<^verbatim>\<open>.get\<close> or tested with
  \<^verbatim>\<open>in\<close> may be absent (\<open>None\<close>); a key that is present holds a value of the type
  that \<^verbatim>\<open>save_state\<close> writes.
\<close>

record measurement_json =
  js_id :: int
  js_area_um2 :: real
  js_width_um :: real
  js_height_um :: real
  js_contour_data :: contour

record tab_state =
  js_title :: "string option"
  js_image_b64 :: "string option"
  js_image_width_um :: "real option"
  js_image_height_um :: "real option"
  js_cell_measurements :: "measurement_json list option"
  js_next_cell_id :: "int option"

text \<open>
  An element met when iterating over the value under \<^verbatim>\<open>"tabs"\<close>: a JSON object, or
  anything else (a number, a string, a list, \<^verbatim>\<open>null\<close>), which has no \<^verbatim>\<open>get\<close>. The
  value under \<^verbatim>\<open>"tabs"\<close> itself: something Python can iterate over (a list; also a
  string or an object, whose elements then are strings), or \<^verbatim>\<open>null\<close>, a number or a
  truth value, which it cannot.
\<close>

datatype tab_json = TabObject tab_state | NotAnObject

datatype tabs_json = TabList "tab_json list" | NotIterable

record project_data =
  js_version :: "string option"
  js_tabs :: "tabs_json option"

text \<open>
  What \<^verbatim>\<open>json.load\<close> can give: an object; an array (of which the model keeps the
  strings among its elements); a string; or a number, a truth value or \<^verbatim>\<open>null\<close>. And
  what \<^verbatim>\<open>open\<close> and \<^verbatim>\<open>json.load\<close> give for a path.
\<close>

datatype json_value =
    JsonObject project_data
  | JsonArray "string list"
  | JsonString string
  | JsonScalar

datatype project_file = Unreadable | NotJSON | Parsed json_value

text \<open>
  The library. \<open>findContours\<close> stands for lines 587 and 589 together: the inverse binary
  threshold at the given value followed by the extraction of the external contours.
  \<open>shape\<close> gives (rows, columns). \<open>float_py\<close> is Python's \<^verbatim>\<open>float\<close> on a string
  (\<open>None\<close>: \<^verbatim>\<open>ValueError\<close>), \<open>str_py\<close> is \<^verbatim>\<open>str\<close> on a float,
  \<open>b64decode\<close> gives \<open>None\<close> where \<^verbatim>\<open>base64.b64decode\<close> raises. \<open>imdecode\<close>
  stands for lines 253 and 254: it gives \<open>Inr (Some img)\<close> for the bytes of an image,
  \<open>Inr None\<close> where \<^verbatim>\<open>cv2.imdecode\<close> returns \<^verbatim>\<open>None\<close>, and \<open>Inl e\<close> where it
  raises (as it does on an empty buffer). \<open>point_bool\<close> is the truth value Qt gives a
  \<^verbatim>\<open>QPointF\<close>.
\<close>

record 'img library =
  contourArea :: "contour \<Rightarrow> real"
  boundingRect :: "contour \<Rightarrow> int \<times> int \<times> int \<times> int"
  pointPolygonTest :: "contour \<Rightarrow> point \<Rightarrow> real"
  findContours :: "'img \<Rightarrow> int \<Rightarrow> contour list"
  cvtColor_BGR2RGB :: "'img \<Rightarrow> 'img"
  cvtColor_RGB2BGR :: "'img \<Rightarrow> 'img"
  cvtColor_BGR2GRAY :: "'img \<Rightarrow> 'img"
  shape :: "'img \<Rightarrow> nat \<times> nat"
  imencode_png :: "'img \<Rightarrow> bytes"
  imdecode :: "bytes \<Rightarrow> py_error + 'img option"
  b64encode :: "bytes \<Rightarrow> string"
  b64decode :: "string \<Rightarrow> bytes option"
  float_py :: "string \<Rightarrow> real option"
  str_py :: "real \<Rightarrow> string"
  point_bool :: "scene_pos \<Rightarrow> bool"

text \<open>The fields of a \<^verbatim>\<open>CellAnalyzerTab\<close>.\<close>

record 'img tab =
  image_width_um :: real
  image_height_um :: real
  pixel_width_um :: real
  pixel_height_um :: real
  contours :: "contour list"
  cell_measurements :: "measurement list"
  next_cell_id :: int
  line_start_point :: "scene_pos option"
  img_color :: "'img option"
  img_gray :: "'img option"
  current_line_items :: "(scene_pos \<times> scene_pos) list"
  width_input :: string
  height_input :: string
  measurements_table :: "int list"
  line_length_label :: "np_float option"
  status :: message
  dialogs :: "dialog list"

text \<open>The window: its tabs with their titles, its status message and its error dialogs.\<close>

record 'img app =
  tabs :: "(string \<times> 'img tab) list"
  app_status :: message
  app_dialogs :: "dialog list"

subsection \<open>The tab\<close>

definition THRESHOLD_VALUE :: int where
  "THRESHOLD_VALUE = 200"

definition MIN_CONTOUR_AREA :: real where
  "MIN_CONTOUR_AREA = 50"

definition update_status :: "message \<Rightarrow> 'img tab \<Rightarrow> 'img tab" where
  "update_status msg s = s\<lparr>status := msg\<rparr>"

text \<open>\<^verbatim>\<open>__init__\<close> with its default arguments, as \<^verbatim>\<open>add_new_tab\<close> and the project
  loader call it.\<close>

definition new_tab :: "'img library \<Rightarrow> 'img tab" where
  "new_tab L =
     \<lparr>image_width_um = 100, image_height_um = 100,
      pixel_width_um = 0, pixel_height_um = 0,
      contours = [], cell_measurements = [], next_cell_id = 1,
      line_start_point = None, img_color = None, img_gray = None,
      current_line_items = [],
      width_input = str_py L 100, height_input = str_py L 100,
      measurements_table = [], line_length_label = None,
      status = PleaseImport, dialogs = []\<rparr>"

text \<open>
  \<^verbatim>\<open>draw_contour\<close>: the path moves to \<^verbatim>\<open>contour[0]\<close> (an \<^verbatim>\<open>IndexError\<close> on an
  empty contour), draws a line to every further point and back to the first.
\<close>

definition draw_contour :: "contour \<Rightarrow> py_error + point list" where
  "draw_contour c = (case c of [] \<Rightarrow> Inl IndexError | p # ps \<Rightarrow> Inr (p # ps @ [p]))"

definition add_measurement_to_table ::
  "'img tab \<Rightarrow> int \<Rightarrow> contour \<Rightarrow> real \<Rightarrow> real \<Rightarrow> real \<Rightarrow> bool \<Rightarrow> py_error + 'img tab" where
  "add_measurement_to_table s cid c w h a update_id =
     (case draw_contour c of
        Inl e \<Rightarrow> Inl e
      | Inr item \<Rightarrow>
          Inr (s\<lparr>cell_measurements := cell_measurements s @
                    [\<lparr>cell_id = cid, area_um2 = a, width_um = w, height_um = h,
                      contour_data = c, outline_item = item\<rparr>],
                  measurements_table := measurements_table s @ [cid]\<rparr>))"

text \<open>Python's \<^verbatim>\<open>int\<close> on a float truncates towards zero.\<close>

definition int_py :: "real \<Rightarrow> int" where
  "int_py x = (if 0 \<le> x then \<lfloor>x\<rfloor> else \<lceil>x\<rceil>)"

text \<open>The loop of \<^verbatim>\<open>handle_click\<close> over \<^verbatim>\<open>self.contours\<close>; leaving the loop without a
  match reaches \<^verbatim>\<open>super().mousePressEvent\<close>, which changes nothing here.\<close>

fun click_contours :: "'img library \<Rightarrow> 'img tab \<Rightarrow> point \<Rightarrow> contour list \<Rightarrow> py_error + 'img tab" where
  "click_contours L s p [] = Inr s"
| "click_contours L s p (c # cs) =
     (if pointPolygonTest L c p \<ge> 0 then
        (let area_px = contourArea L c;
             area = area_px * pixel_width_um s * pixel_height_um s;
             (x_c, y_c, w, h) = boundingRect L c;
             width = real_of_int w * pixel_width_um s;
             height = real_of_int h * pixel_height_um s
         in case add_measurement_to_table s (next_cell_id s) c width height area True of
              Inl e \<Rightarrow> Inl e
            | Inr s' \<Rightarrow>
                Inr ((update_status (CellAdded (next_cell_id s') area) s')
                       \<lparr>next_cell_id := next_cell_id s' + 1\<rparr>))
      else click_contours L s p cs)"

definition handle_click :: "'img library \<Rightarrow> 'img tab \<Rightarrow> mouse_event \<Rightarrow> py_error + 'img tab" where
  "handle_click L s ev =
     (if button ev = LeftButton then
        (let (x, y) = pos ev in click_contours L s (int_py x, int_py y) (contours s))
      else Inr s)"

text \<open>
  \<^verbatim>\<open>delete_selected_measurement\<close>. The argument is the row of the first selected index
  of the table (\<open>None\<close>: nothing selected); the id is read from column 0 of that row.
\<close>

definition delete_selected_measurement :: "'img tab \<Rightarrow> nat option \<Rightarrow> py_error + 'img tab" where
  "delete_selected_measurement s selected =
     (case selected of
        None \<Rightarrow> Inr (update_status NothingSelected s)
      | Some row \<Rightarrow>
          if length (measurements_table s) \<le> row then Inl AttributeError
          else
            (let cid = measurements_table s ! row in
             case find (\<lambda>m. cell_id m = cid) (cell_measurements s) of
               None \<Rightarrow> Inr s
             | Some data_to_delete \<Rightarrow>
                 Inr (update_status (DeletedCell cid)
                        (s\<lparr>cell_measurements := filter (\<lambda>m. cell_id m \<noteq> cid) (cell_measurements s),
                           measurements_table :=
                             take row (measurements_table s) @ drop (Suc row) (measurements_table s)\<rparr>))))"

definition clear_temp_items :: "'img tab \<Rightarrow> 'img tab" where
  "clear_temp_items s = s\<lparr>line_start_point := None\<rparr>"

definition handle_line_press :: "'img tab \<Rightarrow> mouse_event \<Rightarrow> 'img tab" where
  "handle_line_press s ev = (clear_temp_items s)\<lparr>line_start_point := Some (pos ev)\<rparr>"

text \<open>\<^verbatim>\<open>np.sqrt\<close> on a float, and the product of two floats of which one may be
  \<^verbatim>\<open>nan\<close>.\<close>

definition np_sqrt :: "real \<Rightarrow> np_float" where
  "np_sqrt x = (if x < 0 then NaN else Finite (sqrt x))"

fun np_mul :: "np_float \<Rightarrow> np_float \<Rightarrow> np_float" where
  "np_mul (Finite x) (Finite y) = Finite (x * y)"
| "np_mul x y = NaN"

definition handle_line_release :: "'img library \<Rightarrow> 'img tab \<Rightarrow> mouse_event \<Rightarrow> 'img tab" where
  "handle_line_release L s ev =
     (case line_start_point s of
        None \<Rightarrow> s
      | Some start \<Rightarrow>
          if point_bool L start then
            (let end_point = pos ev;
                 s1 = s\<lparr>current_line_items := current_line_items s @ [(start, end_point)]\<rparr>;
                 pixel_length =
                   np_sqrt ((fst end_point - fst start)\<^sup>2 + (snd end_point - snd start)\<^sup>2);
                 pixel_size = np_sqrt (pixel_width_um s1 * pixel_height_um s1);
                 um_length = np_mul pixel_length pixel_size;
                 s2 = s1\<lparr>line_length_label := Some um_length\<rparr>;
                 s3 = update_status (LineDrawn um_length) s2
             in clear_temp_items s3)
          else s)"

text \<open>
  \<^verbatim>\<open>recalculate_dimensions\<close>. The loop over the former measurements first; then the
  method, whose \<^verbatim>\<open>except ValueError\<close> catches the two \<^verbatim>\<open>float\<close> conversions, each
  after the assignments that precede it. A division by a zero image size is a
  \<^verbatim>\<open>ZeroDivisionError\<close>, which the handler does not catch.
\<close>

fun recalculate_measurements ::
  "'img library \<Rightarrow> 'img tab \<Rightarrow> measurement list \<Rightarrow> py_error + 'img tab" where
  "recalculate_measurements L s [] = Inr s"
| "recalculate_measurements L s (m # ms) =
     (let contour_np = contour_data m;
          (x_c, y_c, w_px, h_px) = boundingRect L contour_np;
          area_px = contourArea L contour_np;
          area = area_px * pixel_width_um s * pixel_height_um s;
          width = real_of_int w_px * pixel_width_um s;
          height = real_of_int h_px * pixel_height_um s
      in case add_measurement_to_table s (cell_id m) contour_np width height area False of
           Inl e \<Rightarrow> Inl e
         | Inr s' \<Rightarrow> recalculate_measurements L s' ms)"

definition recalculate_dimensions :: "'img library \<Rightarrow> 'img tab \<Rightarrow> py_error + 'img tab" where
  "recalculate_dimensions L s =
     (case float_py L (width_input s) of
        None \<Rightarrow> Inr (update_status InvalidInput s)
      | Some w \<Rightarrow>
          (let s1 = s\<lparr>image_width_um := w\<rparr> in
           case float_py L (height_input s1) of
             None \<Rightarrow> Inr (update_status InvalidInput s1)
           | Some h \<Rightarrow>
               (let s2 = s1\<lparr>image_height_um := h\<rparr> in
                case img_gray s2 of
                  None \<Rightarrow> Inr (update_status NoImageLoaded s2)
                | Some gray \<Rightarrow>
                    (let (img_height_px, img_width_px) = shape L gray in
                     if img_width_px = 0 \<or> img_height_px = 0 then Inl ZeroDivisionError
                     else
                       (let s3 = s2\<lparr>pixel_width_um := image_width_um s2 / real img_width_px,
                                     pixel_height_um := image_height_um s2 / real img_height_px\<rparr>;
                            s4 = update_status DimensionsUpdated s3;
                            temp_measurements = cell_measurements s4;
                            s5 = s4\<lparr>cell_measurements := [], measurements_table := []\<rparr>
                        in recalculate_measurements L s5 temp_measurements)))))"

definition auto_scale_image :: "'img tab \<Rightarrow> 'img tab" where
  "auto_scale_image s =
     (if img_color s \<noteq> None then update_status ScaledToFit s
      else update_status NoImageToScale s)"

definition clear_all_outlines :: "'img tab \<Rightarrow> 'img tab" where
  "clear_all_outlines s =
     s\<lparr>current_line_items := [], cell_measurements := [], measurements_table := [],
       next_cell_id := 1\<rparr>"

definition analyze_image :: "'img library \<Rightarrow> 'img tab \<Rightarrow> 'img option \<Rightarrow> py_error + 'img tab" where
  "analyze_image L s img_opt =
     (case img_opt of
        None \<Rightarrow> Inr (update_status CouldNotLoadImage s)
      | Some img \<Rightarrow>
          (let color = cvtColor_BGR2RGB L img;
               gray = cvtColor_BGR2GRAY L img;
               s1 = s\<lparr>img_color := Some color, img_gray := Some gray\<rparr>;
               s2 = s1\<lparr>contours :=
                      filter (\<lambda>c. contourArea L c > MIN_CONTOUR_AREA)
                        (findContours L gray THRESHOLD_VALUE)\<rparr>;
               (img_height_px, img_width_px) = shape L color
           in if img_width_px = 0 \<or> img_height_px = 0 then Inl ZeroDivisionError
              else
                (let s3 = s2\<lparr>pixel_width_um := image_width_um s2 / real img_width_px,
                              pixel_height_um := image_height_um s2 / real img_height_px\<rparr>
                 in Inr (auto_scale_image (clear_all_outlines s3)))))"

subsection \<open>Saving and loading\<close>

definition serializable :: "measurement \<Rightarrow> measurement_json" where
  "serializable m =
     \<lparr>js_id = cell_id m, js_area_um2 = area_um2 m, js_width_um = width_um m,
      js_height_um = height_um m, js_contour_data = contour_data m\<rparr>"

text \<open>
  \<^verbatim>\<open>save_state\<close>. The second argument is the text the parent widget gives for the tab
  when it has a \<^verbatim>\<open>tabText\<close> (\<open>None\<close> otherwise).
\<close>

definition save_state :: "'img library \<Rightarrow> string option \<Rightarrow> 'img tab \<Rightarrow> tab_state option" where
  "save_state L parent_text s =
     (case img_color s of
        None \<Rightarrow> None
      | Some color \<Rightarrow>
          (let img_data = imencode_png L (cvtColor_RGB2BGR L color);
               img_b64 = b64encode L img_data;
               title = (case parent_text of Some t \<Rightarrow> t | None \<Rightarrow> ''Untitled Tab'')
           in Some \<lparr>js_title = Some title,
                    js_image_b64 = Some img_b64,
                    js_image_width_um = Some (image_width_um s),
                    js_image_height_um = Some (image_height_um s),
                    js_cell_measurements = Some (map serializable (cell_measurements s)),
                    js_next_cell_id = Some (next_cell_id s)\<rparr>))"

text \<open>\<^verbatim>\<open>d.get(key, default)\<close> on a key that may be absent.\<close>

definition get_or :: "'a option \<Rightarrow> 'a \<Rightarrow> 'a" where
  "get_or v d = (case v of None \<Rightarrow> d | Some x \<Rightarrow> x)"

fun restore_measurements :: "'img tab \<Rightarrow> measurement_json list \<Rightarrow> py_error + 'img tab" where
  "restore_measurements s [] = Inr s"
| "restore_measurements s (m # ms) =
     (case add_measurement_to_table s (js_id m) (js_contour_data m)
             (js_width_um m) (js_height_um m) (js_area_um2 m) False of
        Inl e \<Rightarrow> Inl e
      | Inr s' \<Rightarrow> restore_measurements s' ms)"

text \<open>The handler of \<^verbatim>\<open>load_state\<close> for the \<^verbatim>\<open>ValueError\<close>s raised in its body.\<close>

definition load_failed :: "py_error \<Rightarrow> 'img tab \<Rightarrow> 'img tab" where
  "load_failed e s = update_status ErrorLoadingProject (s\<lparr>dialogs := dialogs s @ [LoadError e]\<rparr>)"

definition load_state :: "'img library \<Rightarrow> 'img tab \<Rightarrow> tab_state \<Rightarrow> py_error + 'img tab" where
  "load_state L s state =
     (case js_image_b64 state of
        None \<Rightarrow> Inr (load_failed NoImageData s)
      | Some img_b64 \<Rightarrow>
          if img_b64 = [] then Inr (load_failed NoImageData s)
          else
            (case b64decode L img_b64 of
               None \<Rightarrow> Inr (load_failed Base64Error s)
             | Some img_data \<Rightarrow>
                 (case imdecode L img_data of
                    Inl e \<Rightarrow> Inl e
                  | Inr img \<Rightarrow>
                 (let s1 = s\<lparr>image_width_um := get_or (js_image_width_um state) 100\<rparr>;
                      s2 = s1\<lparr>height_input := str_py L (image_height_um s1)\<rparr>;
                      s3 = s2\<lparr>image_height_um := get_or (js_image_height_um state) 100\<rparr>;
                      s4 = s3\<lparr>width_input := str_py L (image_width_um s3)\<rparr>
                  in case analyze_image L s4 img of
                       Inl e \<Rightarrow> Inl e
                     | Inr s5 \<Rightarrow>
                         (let s6 = s5\<lparr>cell_measurements := [],
                                       next_cell_id := get_or (js_next_cell_id state) 1\<rparr>;
                              loaded_measurements = get_or (js_cell_measurements state) []
                          in case restore_measurements s6 loaded_measurements of
                               Inl e \<Rightarrow> Inl e
                             | Inr s7 \<Rightarrow>
                                 Inr (update_status
                                        (LoadedImage (length (cell_measurements s7))) s7))))))"

subsection \<open>The window\<close>

text \<open>The loop of \<^verbatim>\<open>save_project\<close> over the tabs, and the method from its check of the
  tab count on, for a path chosen in the file dialog. It gives the document written by
  \<^verbatim>\<open>json.dump\<close>, if any.\<close>

fun project_states :: "'img library \<Rightarrow> (string \<times> 'img tab) list \<Rightarrow> tab_state list" where
  "project_states L [] = []"
| "project_states L ((text, tab_widget) # rest) =
     (case save_state L (Some text) tab_widget of
        None \<Rightarrow> project_states L rest
      | Some state \<Rightarrow> (state\<lparr>js_title := Some text\<rparr>) # project_states L rest)"

definition save_project :: "'img library \<Rightarrow> 'img app \<Rightarrow> project_data option \<times> 'img app" where
  "save_project L a =
     (if tabs a = [] then (None, a\<lparr>app_dialogs := app_dialogs a @ [SaveErrorNoTabs]\<rparr>)
      else (Some \<lparr>js_version = Some ''1.0'',
                   js_tabs = Some (TabList (map TabObject (project_states L (tabs a))))\<rparr>,
            a\<lparr>app_status := ProjectSaved\<rparr>))"

text \<open>
  \<^verbatim>\<open>_load_project_from_path\<close>. \<open>Returned b a\<close>: the method returns \<open>b\<close> and leaves
  the window as \<open>a\<close>; \<open>Raised e a\<close>: the exception \<open>e\<close>, which the handler does not
  catch, leaves the method with the window as \<open>a\<close>.
\<close>

datatype 'img outcome = Returned bool "'img app" | Raised py_error "'img app"

definition project_load_failed :: "py_error \<Rightarrow> 'img app \<Rightarrow> 'img outcome" where
  "project_load_failed e a =
     Returned False (a\<lparr>app_dialogs := app_dialogs a @ [LoadError e],
                      app_status := ErrorLoadingProject\<rparr>)"

text \<open>
  The loop over the stored tabs. An element that is not an object makes
  \<^verbatim>\<open>state.get\<close> in \<^verbatim>\<open>load_state\<close> raise an \<^verbatim>\<open>AttributeError\<close>, which no handler
  catches; the tab created for it is not added.
\<close>

fun load_tabs :: "'img library \<Rightarrow> 'img app \<Rightarrow> tab_json list \<Rightarrow> 'img outcome" where
  "load_tabs L a [] = Returned True (a\<lparr>app_status := ProjectLoaded\<rparr>)"
| "load_tabs L a (NotAnObject # rest) = Raised AttributeError a"
| "load_tabs L a (TabObject tab_state # rest) =
     (case load_state L (new_tab L) tab_state of
        Inl e \<Rightarrow> Raised e a
      | Inr new \<Rightarrow>
          load_tabs L
            (a\<lparr>tabs := tabs a @ [(get_or (js_title tab_state) ''Loaded Tab'', new)]\<rparr>)
            rest)"

text \<open>Python's \<^verbatim>\<open>t in s\<close> on two strings.\<close>

fun substring :: "string \<Rightarrow> string \<Rightarrow> bool" where
  "substring t [] = (t = [])"
| "substring t (c # cs) = (take (length t) (c # cs) = t \<or> substring t cs)"

text \<open>
  \<^verbatim>\<open>"tabs" in project_data\<close> (line 752): a key of an object, an element of an array, a
  part of a string; a \<^verbatim>\<open>TypeError\<close> on a number, a truth value or \<^verbatim>\<open>null\<close>.
\<close>

definition contains_tabs :: "json_value \<Rightarrow> py_error + bool" where
  "contains_tabs project =
     (case project of
        JsonObject d \<Rightarrow> Inr (js_tabs d \<noteq> None)
      | JsonArray elements \<Rightarrow> Inr (''tabs'' \<in> set elements)
      | JsonString t \<Rightarrow> Inr (substring ''tabs'' t)
      | JsonScalar \<Rightarrow> Inl TypeError)"

text \<open>
  What the loop of line 758 iterates over, \<^verbatim>\<open>project_data["tabs"]\<close>: an array and a
  string cannot be indexed by a string, and \<^verbatim>\<open>null\<close>, a number or a truth value
  under the key cannot be iterated (\<^verbatim>\<open>TypeError\<close>).
\<close>

definition stored_tabs :: "json_value \<Rightarrow> py_error + tab_json list" where
  "stored_tabs project =
     (case project of
        JsonObject d \<Rightarrow>
          (case js_tabs d of
             None \<Rightarrow> Inl KeyError
           | Some NotIterable \<Rightarrow> Inl TypeError
           | Some (TabList states) \<Rightarrow> Inr states)
      | JsonArray elements \<Rightarrow> Inl TypeError
      | JsonString t \<Rightarrow> Inl TypeError
      | JsonScalar \<Rightarrow> Inl TypeError)"

definition load_project_from_path :: "'img library \<Rightarrow> 'img app \<Rightarrow> project_file \<Rightarrow> 'img outcome" where
  "load_project_from_path L a file =
     (case file of
        Unreadable \<Rightarrow> project_load_failed IOError a
      | NotJSON \<Rightarrow> project_load_failed JSONDecodeError a
      | Parsed project_data \<Rightarrow>
          (case contains_tabs project_data of
             Inl e \<Rightarrow> Raised e a
           | Inr present \<Rightarrow>
               if \<not> present then project_load_failed InvalidProjectFormat a
               else
                 (let a1 = a\<lparr>tabs := []\<rparr>
                  in case stored_tabs project_data of
                       Inl e \<Rightarrow> Raised e a1
                     | Inr states \<Rightarrow> load_tabs L a1 states)))"

text \<open>The window that an outcome leaves.\<close>

fun window :: "'img outcome \<Rightarrow> 'img app" where
  "window (Returned b a) = a"
| "window (Raised e a) = a"

text \<open>A titled tab is what \<^verbatim>\<open>load_state\<close> made of a stored tab on a fresh tab.\<close>

definition fresh_load :: "'img library \<Rightarrow> tab_json \<Rightarrow> string \<times> 'img tab \<Rightarrow> bool" where
  "fresh_load L stored titled =
     (case stored of
        NotAnObject \<Rightarrow> False
      | TabObject tab_state \<Rightarrow>
          fst titled = get_or (js_title tab_state) ''Loaded Tab'' \<and>
          load_state L (new_tab L) tab_state = Inr (snd titled))"

subsection \<open>Runs of clicks and deletions\<close>

datatype action = Click mouse_event | DeleteSelected "nat option"

definition perform :: "'img library \<Rightarrow> 'img tab \<Rightarrow> action \<Rightarrow> py_error + 'img tab" where
  "perform L s act =
     (case act of
        Click ev \<Rightarrow> handle_click L s ev
      | DeleteSelected selected \<Rightarrow> delete_selected_measurement s selected)"

fun perform_all :: "'img library \<Rightarrow> 'img tab \<Rightarrow> action list \<Rightarrow> py_error + 'img tab" where
  "perform_all L s [] = Inr s"
| "perform_all L s (act # acts) =
     (case perform L s act of Inl e \<Rightarrow> Inl e | Inr s' \<Rightarrow> perform_all L s' acts)"

text \<open>The ids of the records that a step appends, and those appended along a run, in
  the order of their creation (whether or not they are deleted later).\<close>

definition appended_ids :: "'img tab \<Rightarrow> 'img tab \<Rightarrow> int list" where
  "appended_ids s s' =
     map cell_id (drop (length (cell_measurements s)) (cell_measurements s'))"

fun assigned_ids :: "'img library \<Rightarrow> 'img tab \<Rightarrow> action list \<Rightarrow> int list" where
  "assigned_ids L s [] = []"
| "assigned_ids L s (act # acts) =
     (case perform L s act of
        Inl e \<Rightarrow> []
      | Inr s' \<Rightarrow> appended_ids s s' @ assigned_ids L s' acts)"

definition ids_below_counter :: "'img tab \<Rightarrow> bool" where
  "ids_below_counter s = (\<forall>m \<in> set (cell_measurements s). cell_id m < next_cell_id s)"

subsection \<open>Conditions on a saved tab\<close>

text \<open>
  The image of a tab survives saving and loading when the library's PNG and base64
  codecs give back what they were given and the two channel swaps undo each other, on
  this image. The encoded text is not empty and the image has at least one row and one
  column.
\<close>

definition lossless_on :: "'img library \<Rightarrow> 'img \<Rightarrow> bool" where
  "lossless_on L color =
     (let bgr = cvtColor_RGB2BGR L color; png = imencode_png L bgr
      in b64encode L png \<noteq> [] \<and> b64decode L (b64encode L png) = Some png \<and>
         imdecode L png = Inr (Some bgr) \<and> cvtColor_BGR2RGB L bgr = color \<and>
         0 < fst (shape L color) \<and> 0 < snd (shape L color))"

definition image_round_trips :: "'img library \<Rightarrow> 'img tab \<Rightarrow> bool" where
  "image_round_trips L s = (case img_color s of None \<Rightarrow> False | Some color \<Rightarrow> lossless_on L color)"

definition drawable :: "measurement list \<Rightarrow> bool" where
  "drawable ms = list_all (\<lambda>m. contour_data m \<noteq> []) ms"

text \<open>The record that \<^verbatim>\<open>load_state\<close> builds from a stored measurement: the stored
  values as they are, the outline drawn from the polygon.\<close>

definition of_json :: "measurement_json \<Rightarrow> measurement" where
  "of_json m =
     \<lparr>cell_id = js_id m, area_um2 = js_area_um2 m, width_um = js_width_um m,
      height_um = js_height_um m, contour_data = js_contour_data m,
      outline_item = js_contour_data m @ [hd (js_contour_data m)]\<rparr>"

definition drawable_json :: "measurement_json list \<Rightarrow> bool" where
  "drawable_json ms = list_all (\<lambda>m. js_contour_data m \<noteq> []) ms"

text \<open>What the claim compares between a saved tab and the loaded one: record by
  record the id, the polygon and the three derived values; the image, the width and
  height in micrometres, and the id counter.\<close>

definition same_record :: "measurement \<Rightarrow> measurement \<Rightarrow> bool" where
  "same_record m m' =
     (cell_id m' = cell_id m \<and> contour_data m' = contour_data m \<and>
      area_um2 m' = area_um2 m \<and> width_um m' = width_um m \<and> height_um m' = height_um m)"

definition same_project_state :: "'img tab \<Rightarrow> 'img tab \<Rightarrow> bool" where
  "same_project_state s s' =
     (img_color s' = img_color s \<and>
      image_width_um s' = image_width_um s \<and> image_height_um s' = image_height_um s \<and>
      list_all2 same_record (cell_measurements s) (cell_measurements s') \<and>
      next_cell_id s' = next_cell_id s)"

text \<open>
  What the specification asks of \<open>recalculateAll\<close> for one record: the three derived
  values are computed anew from the stored polygon and the two pixel sizes; the id and the
  polygon stay. (The outline is drawn again from the polygon.)
\<close>

definition spec_recalculate :: "'img library \<Rightarrow> real \<Rightarrow> real \<Rightarrow> measurement \<Rightarrow> measurement" where
  "spec_recalculate L unit_x unit_y m =
     (case boundingRect L (contour_data m) of (x, y, w, h) \<Rightarrow>
        m\<lparr>area_um2 := contourArea L (contour_data m) * unit_x * unit_y,
          width_um := real_of_int w * unit_x,
          height_um := real_of_int h * unit_y,
          outline_item := contour_data m @ [hd (contour_data m)]\<rparr>)"

text \<open>A tab of the window that has an image.\<close>

definition has_color :: "string \<times> 'img tab \<Rightarrow> bool" where
  "has_color titled = (img_color (snd titled) \<noteq> None)"

subsection \<open>A small library and sample states\<close>

text \<open>
  An instance of the library on which the model runs: polygons measured by the
  shoelace formula and their bounding box, images as a row count, a column count and
  the bytes of their pixels, and toy codecs. It stands in for OpenCV, Qt and the Python
  library on the sample inputs below.
\<close>

fun pairs_sum :: "contour \<Rightarrow> int" where
  "pairs_sum ((x1, y1) # (x2, y2) # rest) = x1 * y2 - x2 * y1 + pairs_sum ((x2, y2) # rest)"
| "pairs_sum rest = 0"

definition polygon_area :: "contour \<Rightarrow> real" where
  "polygon_area c = real_of_int \<bar>pairs_sum (c @ take 1 c)\<bar> / 2"

definition bounding_box :: "contour \<Rightarrow> int \<times> int \<times> int \<times> int" where
  "bounding_box c =
     (let xs = map fst c; ys = map snd c;
          x0 = fold min xs (hd xs); x1 = fold max xs (hd xs);
          y0 = fold min ys (hd ys); y1 = fold max ys (hd ys)
      in (x0, y0, x1 - x0 + 1, y1 - y0 + 1))"

definition box_test :: "contour \<Rightarrow> point \<Rightarrow> real" where
  "box_test c p =
     (case bounding_box c of (x0, y0, w, h) \<Rightarrow>
        if x0 \<le> fst p \<and> fst p < x0 + w \<and> y0 \<le> snd p \<and> snd p < y0 + h then 1 else - 1)"

fun decimal :: "nat \<Rightarrow> string \<Rightarrow> nat option" where
  "decimal acc [] = Some acc"
| "decimal acc (c # cs) =
     (case map_of [(CHR ''0'', 0), (CHR ''1'', 1), (CHR ''2'', 2), (CHR ''3'', 3), (CHR ''4'', 4),
                   (CHR ''5'', 5), (CHR ''6'', 6), (CHR ''7'', 7), (CHR ''8'', 8), (CHR ''9'', 9)] c of
        None \<Rightarrow> None
      | Some d \<Rightarrow> decimal (10 * acc + d) cs)"

definition decimal_float :: "string \<Rightarrow> real option" where
  "decimal_float t = (if t = [] then None else map_option real (decimal 0 t))"

fun swap_channels :: "string \<Rightarrow> string" where
  "swap_channels (b # g # r # rest) = r # g # b # swap_channels rest"
| "swap_channels rest = rest"

type_synonym raster = "nat \<times> nat \<times> string"

definition raster_encode :: "raster \<Rightarrow> bytes" where
  "raster_encode img =
     (case img of (rows, cols, px) \<Rightarrow>
        replicate rows CHR ''r'' @ replicate cols CHR ''c'' @ CHR '':'' # px)"

definition raster_decode :: "bytes \<Rightarrow> py_error + raster option" where
  "raster_decode bs =
     (if bs = [] then Inl Cv2Error else Inr
     (let rows = length (takeWhile (\<lambda>c. c = CHR ''r'') bs);
          bs1 = dropWhile (\<lambda>c. c = CHR ''r'') bs;
          cols = length (takeWhile (\<lambda>c. c = CHR ''c'') bs1);
          bs2 = dropWhile (\<lambda>c. c = CHR ''c'') bs1
      in case bs2 of
           [] \<Rightarrow> None
         | c # px \<Rightarrow>
             if c = CHR '':'' \<and> 0 < rows \<and> 0 < cols \<and> length px = 3 * rows * cols
             then Some (rows, cols, px) else None))"

definition lib0 :: "raster library" where
  "lib0 =
     \<lparr>contourArea = polygon_area,
      boundingRect = bounding_box,
      pointPolygonTest = box_test,
      findContours = (\<lambda>img t. []),
      cvtColor_BGR2RGB = (\<lambda>(rows, cols, px). (rows, cols, swap_channels px)),
      cvtColor_RGB2BGR = (\<lambda>(rows, cols, px). (rows, cols, swap_channels px)),
      cvtColor_BGR2GRAY = (\<lambda>img. img),
      shape = (\<lambda>(rows, cols, px). (rows, cols)),
      imencode_png = raster_encode,
      imdecode = raster_decode,
      b64encode = (\<lambda>bs. ''b64,'' @ bs),
      b64decode = (\<lambda>t. if take 4 t = ''b64,'' then Some (drop 4 t) else None),
      float_py = decimal_float,
      str_py = (\<lambda>x. if x = 100 then ''100.0'' else ''other''),
      point_bool = (\<lambda>p. p \<noteq> (0, 0))\<rparr>"

text \<open>
  A tab holding an image of 800 rows and 1000 columns declared as 100 by 80 micrometres,
  so that a pixel is 0.1 by 0.1 micrometres, with three detected regions: one far from
  the others, and two that overlap.
\<close>

definition region_far :: contour where
  "region_far = [(500, 500), (520, 500), (520, 520), (500, 520)]"

definition region_a :: contour where
  "region_a = [(0, 0), (49, 0), (49, 39), (0, 39)]"

definition region_b :: contour where
  "region_b = [(10, 10), (60, 10), (60, 60), (10, 60)]"

definition tab0 :: "raster tab" where
  "tab0 =
     \<lparr>image_width_um = 100, image_height_um = 80,
      pixel_width_um = 1 / 10, pixel_height_um = 1 / 10,
      contours = [region_far, region_a, region_b],
      cell_measurements = [], next_cell_id = 1,
      line_start_point = None,
      img_color = Some (800, 1000, []), img_gray = Some (800, 1000, []),
      current_line_items = [],
      width_input = ''100.0'', height_input = ''80.0'',
      measurements_table = [], line_length_label = None,
      status = ScaledToFit, dialogs = []\<rparr>"

definition click0 :: mouse_event where
  "click0 = \<lparr>button = LeftButton, pos = (207 / 10, 202 / 10)\<rparr>"

text \<open>The same tab with two records, measured at 0.1 micrometres per pixel, and new
  dimensions of 200 by 160 micrometres typed into the text fields.\<close>

definition tab_measured :: "raster tab" where
  "tab_measured =
     tab0\<lparr>cell_measurements :=
            [\<lparr>cell_id = 1, area_um2 = 1911 / 100, width_um = 5, height_um = 4,
              contour_data = region_a, outline_item = region_a @ [(0, 0)]\<rparr>,
             \<lparr>cell_id = 3, area_um2 = 25, width_um = 51 / 10, height_um = 51 / 10,
              contour_data = region_b, outline_item = region_b @ [(10, 10)]\<rparr>],
          measurements_table := [1, 3], next_cell_id := 4,
          width_input := ''200'', height_input := ''160''\<rparr>"

text \<open>A width that is a number and a height that is not.\<close>

definition tab_half_valid :: "raster tab" where
  "tab_half_valid = tab_measured\<lparr>width_input := ''200'', height_input := ''abc''\<rparr>"

text \<open>A line started at (3, 4) and released at (6, 8).\<close>

definition tab_line :: "raster tab" where
  "tab_line = tab_measured\<lparr>line_start_point := Some (3, 4)\<rparr>"

text \<open>A line started at the origin of the scene.\<close>

definition tab_line_origin :: "raster tab" where
  "tab_line_origin = tab_measured\<lparr>line_start_point := Some (0, 0)\<rparr>"

definition release0 :: mouse_event where
  "release0 = \<lparr>button = LeftButton, pos = (6, 8)\<rparr>"

text \<open>A run on the first tab: a click, the deletion of the record it created, and
  the same click again; and the tab at the end of the run.\<close>

definition run0 :: "action list" where
  "run0 = [Click click0, DeleteSelected (Some 0), Click click0]"

definition tab_after_run :: "raster tab" where
  "tab_after_run =
     tab0\<lparr>cell_measurements :=
            [\<lparr>cell_id = 2, area_um2 = 1911 / 100, width_um = 5, height_um = 4,
              contour_data = region_a, outline_item = region_a @ [(0, 0)]\<rparr>],
          measurements_table := [2], status := CellAdded 2 (1911 / 100),
          next_cell_id := 3\<rparr>"

text \<open>A tab whose image has a single pixel, which the toy codecs encode and decode; and
  a stored tab that holds nothing but such an image.\<close>

definition tab_small :: "raster tab" where
  "tab_small =
     tab_measured\<lparr>img_color := Some (1, 1, ''rgb''), img_gray := Some (1, 1, ''rgb''),
       image_width_um := 200, image_height_um := 160,
       pixel_width_um := 200, pixel_height_um := 160\<rparr>"

definition state_only_image :: tab_state where
  "state_only_image =
     \<lparr>js_title = None, js_image_b64 = Some ''b64,rc:bgr'', js_image_width_um = None,
      js_image_height_um = None, js_cell_measurements = None, js_next_cell_id = None\<rparr>"

text \<open>Two windows: one with a tab that has no image and a tab that has one, and one
  whose tabs both have an image.\<close>

definition app0 :: "raster app" where
  "app0 =
     \<lparr>tabs = [(''blank'', new_tab lib0), (''cells'', tab_small)],
      app_status = Welcome, app_dialogs = []\<rparr>"

definition app_cells :: "raster app" where
  "app_cells =
     \<lparr>tabs = [(''cells'', tab_small),
              (''no cells'', tab_small\<lparr>cell_measurements := [], measurements_table := [],
                                      next_cell_id := 1\<rparr>)],
      app_status = Welcome, app_dialogs = []\<rparr>"

text \<open>Documents with one stored tab: one that has a record but no image, one whose
  image text decodes to no bytes at all, and one whose image text is not base64.\<close>

definition state_no_image :: tab_state where
  "state_no_image =
     \<lparr>js_title = Some ''lost'', js_image_b64 = None, js_image_width_um = Some 100,
      js_image_height_um = Some 80,
      js_cell_measurements =
        Some [\<lparr>js_id = 1, js_area_um2 = 1911 / 100, js_width_um = 5, js_height_um = 4,
               js_contour_data = region_a\<rparr>],
      js_next_cell_id = Some 2\<rparr>"

definition doc_no_image :: project_data where
  "doc_no_image =
     \<lparr>js_version = Some ''1.0'', js_tabs = Some (TabList [TabObject state_no_image])\<rparr>"

definition doc_empty_buffer :: project_data where
  "doc_empty_buffer =
     \<lparr>js_version = Some ''1.0'',
      js_tabs = Some (TabList
        [TabObject (state_no_image\<lparr>js_title := Some ''empty'', js_image_b64 := Some ''b64,''\<rparr>)])\<rparr>"

definition doc_bad_image :: project_data where
  "doc_bad_image =
     \<lparr>js_version = Some ''1.0'',
      js_tabs = Some (TabList
        [TabObject (state_no_image\<lparr>js_title := Some ''broken'', js_image_b64 := Some ''A''\<rparr>)])\<rparr>"

section \<open>Properties\<close>

subsection \<open>Creating a measurement by a click\<close>

lemma click_contours_skip:
  "\<forall>c' \<in> set before. pointPolygonTest L c' p < 0 \<Longrightarrow>
   click_contours L s p (before @ rest) = click_contours L s p rest"
  by (induction before) auto

text \<open>
  C2. A left click is bound to the first detected region, in the order of
  \<^verbatim>\<open>self.contours\<close>, whose point-in-polygon test at the truncated click position is not
  negative (so the boundary counts as inside), whatever regions follow it. The click
  appends exactly one record: its id is the counter, its area is the pixel area times
  both pixel sizes, its width and height are those of the bounding box times the
  horizontal and the vertical pixel size, its polygon is the region. The counter grows
  by one. (An OpenCV contour has at least one point.)
\<close>

theorem handle_click_first_match:
  assumes left: "button ev = LeftButton"
    and p: "p = (int_py (fst (pos ev)), int_py (snd (pos ev)))"
    and split: "contours s = before @ c # after"
    and miss: "\<forall>c' \<in> set before. pointPolygonTest L c' p < 0"
    and hit: "pointPolygonTest L c p \<ge> 0"
    and nonempty: "c \<noteq> []"
    and box: "boundingRect L c = (x_c, y_c, w, h)"
  shows "handle_click L s ev =
     Inr (s\<lparr>cell_measurements := cell_measurements s @
               [\<lparr>cell_id = next_cell_id s,
                 area_um2 = contourArea L c * pixel_width_um s * pixel_height_um s,
                 width_um = real_of_int w * pixel_width_um s,
                 height_um = real_of_int h * pixel_height_um s,
                 contour_data = c, outline_item = c @ [hd c]\<rparr>],
             measurements_table := measurements_table s @ [next_cell_id s],
             status := CellAdded (next_cell_id s)
                         (contourArea L c * pixel_width_um s * pixel_height_um s),
             next_cell_id := next_cell_id s + 1\<rparr>)" (is "_ = ?rhs")
proof -
  obtain q qs where c: "c = q # qs"
    using nonempty by (cases c) auto
  have "click_contours L s p (c # after) = ?rhs"
    using hit box c
    by (simp add: add_measurement_to_table_def draw_contour_def update_status_def Let_def)
  then have "click_contours L s p (contours s) = ?rhs"
    using split click_contours_skip [OF miss] by simp
  then show ?thesis
    using left p by (cases "pos ev") (simp add: handle_click_def)
qed

theorem handle_click_first_match_witness:
  "handle_click lib0 tab0 click0 =
     Inr (tab0\<lparr>cell_measurements :=
                 [\<lparr>cell_id = 1, area_um2 = 1911 / 100, width_um = 5, height_um = 4,
                   contour_data = region_a, outline_item = region_a @ [(0, 0)]\<rparr>],
               measurements_table := [1],
               status := CellAdded 1 (1911 / 100),
               next_cell_id := 2\<rparr>)"
proof -
  have left: "button click0 = LeftButton"
    by (simp add: click0_def)
  have p: "(20, 20) = (int_py (fst (pos click0)), int_py (snd (pos click0)))"
    by (simp add: click0_def int_py_def)
  have split: "contours tab0 = [region_far] @ region_a # [region_b]"
    by (simp add: tab0_def)
  have miss: "\<forall>c' \<in> set [region_far]. pointPolygonTest lib0 c' (20, 20) < 0"
    by (simp add: lib0_def box_test_def bounding_box_def region_far_def)
  have hit: "pointPolygonTest lib0 region_a (20, 20) \<ge> 0"
    by (simp add: lib0_def box_test_def bounding_box_def region_a_def)
  have nonempty: "region_a \<noteq> []"
    by (simp add: region_a_def)
  have box: "boundingRect lib0 region_a = (0, 0, 50, 40)"
    by (simp add: lib0_def bounding_box_def region_a_def)
  have area: "contourArea lib0 region_a = 1911"
    by (simp add: lib0_def polygon_area_def region_a_def)
  show ?thesis
    using handle_click_first_match [OF left p split miss hit nonempty box] area
    by (simp add: tab0_def region_a_def)
qed

subsection \<open>Recalculating after a change of the dimensions\<close>

lemma spec_recalculate_fields:
  "cell_id (spec_recalculate L ux uy m) = cell_id m"
  "contour_data (spec_recalculate L ux uy m) = contour_data m"
  by (simp_all add: spec_recalculate_def split: prod.splits)

lemma spec_recalculate_idem:
  "spec_recalculate L ux uy (spec_recalculate L ux uy m) = spec_recalculate L ux uy m"
  by (simp add: spec_recalculate_def split: prod.splits)

lemma add_measurement_nonempty:
  "c \<noteq> [] \<Longrightarrow>
   add_measurement_to_table s cid c w h a u =
     Inr (s\<lparr>cell_measurements := cell_measurements s @
               [\<lparr>cell_id = cid, area_um2 = a, width_um = w, height_um = h,
                 contour_data = c, outline_item = c @ [hd c]\<rparr>],
             measurements_table := measurements_table s @ [cid]\<rparr>)"
  by (cases c) (simp_all add: add_measurement_to_table_def draw_contour_def)

lemma recalculate_measurements_eq:
  "drawable ms \<Longrightarrow>
   recalculate_measurements L s ms =
     Inr (s\<lparr>cell_measurements := cell_measurements s @
               map (spec_recalculate L (pixel_width_um s) (pixel_height_um s)) ms,
             measurements_table := measurements_table s @ map cell_id ms\<rparr>)"
proof (induction ms arbitrary: s)
  case Nil
  then show ?case by simp
next
  case (Cons m ms)
  then have ne: "contour_data m \<noteq> []" and rest: "drawable ms"
    by (simp_all add: drawable_def)
  obtain x y w h where box: "boundingRect L (contour_data m) = (x, y, w, h)"
    by (cases "boundingRect L (contour_data m)") auto
  have rec: "spec_recalculate L (pixel_width_um s) (pixel_height_um s) m =
      \<lparr>cell_id = cell_id m,
       area_um2 = contourArea L (contour_data m) * pixel_width_um s * pixel_height_um s,
       width_um = real_of_int w * pixel_width_um s,
       height_um = real_of_int h * pixel_height_um s,
       contour_data = contour_data m,
       outline_item = contour_data m @ [hd (contour_data m)]\<rparr>"
    using box by (cases m) (simp add: spec_recalculate_def)
  show ?case
    by (simp add: box add_measurement_nonempty [OF ne] Cons.IH [OF rest] rec Let_def)
qed

lemma drawable_spec_recalculate:
  "drawable ms \<Longrightarrow> drawable (map (spec_recalculate L ux uy) ms)"
  by (induction ms) (simp_all add: drawable_def spec_recalculate_fields)

lemma recalculate_dimensions_result:
  assumes "float_py L (width_input s) = Some w"
    and "float_py L (height_input s) = Some h"
    and "img_gray s = Some gray"
    and "shape L gray = (rows, cols)"
    and "0 < rows" "0 < cols"
    and "drawable (cell_measurements s)"
  shows "recalculate_dimensions L s =
           Inr (s\<lparr>image_width_um := w, image_height_um := h,
                   pixel_width_um := w / real cols, pixel_height_um := h / real rows,
                   status := DimensionsUpdated,
                   cell_measurements :=
                     map (spec_recalculate L (w / real cols) (h / real rows)) (cell_measurements s),
                   measurements_table := map cell_id (cell_measurements s)\<rparr>)"
  using assms
  by (simp add: recalculate_dimensions_def recalculate_measurements_eq update_status_def Let_def)

text \<open>
  C3. When both text fields hold numbers \<open>w\<close> and \<open>h\<close> and an image of \<open>rows\<close> by
  \<open>cols\<close> pixels is loaded, \<^verbatim>\<open>recalculate_dimensions\<close> replaces every record, in
  order, by the record recomputed from its stored polygon with the pixel sizes
  \<open>w / cols\<close> and \<open>h / rows\<close>: ids, polygons and the counter are unchanged. Running it
  again on the result changes nothing.
\<close>

theorem recalculate_dimensions_recomputes:
  assumes w: "float_py L (width_input s) = Some w"
    and h: "float_py L (height_input s) = Some h"
    and gray: "img_gray s = Some gray"
    and sh: "shape L gray = (rows, cols)"
    and pos: "0 < rows" "0 < cols"
    and dr: "drawable (cell_measurements s)"
  shows "\<exists>s'. recalculate_dimensions L s = Inr s' \<and>
           cell_measurements s' =
             map (spec_recalculate L (w / real cols) (h / real rows)) (cell_measurements s) \<and>
           map cell_id (cell_measurements s') = map cell_id (cell_measurements s) \<and>
           map contour_data (cell_measurements s') = map contour_data (cell_measurements s) \<and>
           next_cell_id s' = next_cell_id s \<and>
           recalculate_dimensions L s' = Inr s'"
proof -
  define s' where "s' = s\<lparr>image_width_um := w, image_height_um := h,
      pixel_width_um := w / real cols, pixel_height_um := h / real rows,
      status := DimensionsUpdated,
      cell_measurements :=
        map (spec_recalculate L (w / real cols) (h / real rows)) (cell_measurements s),
      measurements_table := map cell_id (cell_measurements s)\<rparr>"
  have first: "recalculate_dimensions L s = Inr s'"
    unfolding s'_def by (rule recalculate_dimensions_result [OF w h gray sh pos dr])
  have inputs: "float_py L (width_input s') = Some w" "float_py L (height_input s') = Some h"
    "img_gray s' = Some gray"
    using w h gray by (simp_all add: s'_def)
  have dr': "drawable (cell_measurements s')"
    using dr by (simp add: s'_def drawable_spec_recalculate)
  have again: "recalculate_dimensions L s' = Inr s'"
    unfolding recalculate_dimensions_result [OF inputs sh pos dr']
    by (simp add: s'_def spec_recalculate_idem spec_recalculate_fields comp_def)
  have "cell_measurements s' =
      map (spec_recalculate L (w / real cols) (h / real rows)) (cell_measurements s)"
    and "map cell_id (cell_measurements s') = map cell_id (cell_measurements s)"
    and "map contour_data (cell_measurements s') = map contour_data (cell_measurements s)"
    and "next_cell_id s' = next_cell_id s"
    by (simp_all add: s'_def spec_recalculate_fields comp_def)
  with first again show ?thesis by blast
qed

lemma sqrt_25: "sqrt 25 = 5"
  by (rule real_sqrt_unique) simp_all

lemma sqrt_hundredth: "sqrt (1 / 100) = 1 / 10"
  by (rule real_sqrt_unique) (simp_all add: power2_eq_square)

theorem recalculate_dimensions_recomputes_witness:
  "\<exists>s'. recalculate_dimensions lib0 tab_measured = Inr s' \<and>
     map cell_id (cell_measurements s') = [1, 3] \<and>
     map area_um2 (cell_measurements s') = [1911 / 25, 100] \<and>
     map width_um (cell_measurements s') = [10, 51 / 5] \<and>
     map height_um (cell_measurements s') = [8, 51 / 5] \<and>
     recalculate_dimensions lib0 s' = Inr s'"
proof -
  have w: "float_py lib0 (width_input tab_measured) = Some 200"
    by (simp add: lib0_def tab_measured_def decimal_float_def)
  have h: "float_py lib0 (height_input tab_measured) = Some 160"
    by (simp add: lib0_def tab_measured_def decimal_float_def)
  have gray: "img_gray tab_measured = Some (800, 1000, [])"
    by (simp add: tab_measured_def tab0_def)
  have sh: "shape lib0 (800, 1000, []) = (800, 1000)"
    by (simp add: lib0_def)
  have dr: "drawable (cell_measurements tab_measured)"
    by (simp add: drawable_def tab_measured_def region_a_def region_b_def)
  have recs: "map (spec_recalculate lib0 (200 / real 1000) (160 / real 800))
        (cell_measurements tab_measured) =
      [\<lparr>cell_id = 1, area_um2 = 1911 / 25, width_um = 10, height_um = 8,
        contour_data = region_a, outline_item = region_a @ [(0, 0)]\<rparr>,
       \<lparr>cell_id = 3, area_um2 = 100, width_um = 51 / 5, height_um = 51 / 5,
        contour_data = region_b, outline_item = region_b @ [(10, 10)]\<rparr>]"
    by (simp add: tab_measured_def spec_recalculate_def lib0_def bounding_box_def
        polygon_area_def region_a_def region_b_def)
  from recalculate_dimensions_recomputes [OF w h gray sh _ _ dr]
  obtain s' where run: "recalculate_dimensions lib0 tab_measured = Inr s'"
    and "cell_measurements s' =
      map (spec_recalculate lib0 (200 / real 1000) (160 / real 800))
        (cell_measurements tab_measured)"
    and again: "recalculate_dimensions lib0 s' = Inr s'"
    by auto
  then have "cell_measurements s' =
      [\<lparr>cell_id = 1, area_um2 = 1911 / 25, width_um = 10, height_um = 8,
        contour_data = region_a, outline_item = region_a @ [(0, 0)]\<rparr>,
       \<lparr>cell_id = 3, area_um2 = 100, width_um = 51 / 5, height_um = 51 / 5,
        contour_data = region_b, outline_item = region_b @ [(10, 10)]\<rparr>]"
    using recs by (simp only:)
  with run again show ?thesis
    by simp
qed

subsection \<open>Text fields that are not numbers\<close>

lemma recalculate_dimensions_width_invalid:
  "float_py L (width_input s) = None \<Longrightarrow>
   recalculate_dimensions L s = Inr (s\<lparr>status := InvalidInput\<rparr>)"
  by (simp add: recalculate_dimensions_def update_status_def)

lemma recalculate_dimensions_height_invalid:
  "float_py L (width_input s) = Some w \<Longrightarrow> float_py L (height_input s) = None \<Longrightarrow>
   recalculate_dimensions L s = Inr (s\<lparr>image_width_um := w, status := InvalidInput\<rparr>)"
  by (simp add: recalculate_dimensions_def update_status_def)

text \<open>
  C5. The claim asks that a request with a text field that is not a number changes
  nothing but the message. When the width field is not a number that is so
  (\<open>recalculate_dimensions_width_invalid\<close>). When the width is a number and the height is
  not, line 494 has stored the new width before line 495 raises: on the sample tab, with
  the fields \<^verbatim>\<open>200\<close> and \<^verbatim>\<open>abc\<close>, the width of the image changes from 100 to 200
  micrometres while the pixel sizes and the records still are those of 100.
\<close>

theorem recalculate_dimensions_partial_update:
  "float_py lib0 (width_input tab_half_valid) = Some 200 \<and>
   float_py lib0 (height_input tab_half_valid) = None \<and>
   image_width_um tab_half_valid = 100 \<and>
   pixel_width_um tab_half_valid = 1 / 10 \<and>
   recalculate_dimensions lib0 tab_half_valid =
     Inr (tab_half_valid\<lparr>image_width_um := 200, status := InvalidInput\<rparr>)"
  by (simp add: recalculate_dimensions_def update_status_def tab_half_valid_def
      tab_measured_def tab0_def lib0_def decimal_float_def)

subsection \<open>Ids along a run of clicks and deletions\<close>

lemma click_contours_cases:
  "click_contours L s p cs = Inr s' \<Longrightarrow>
   s' = s \<or>
   (\<exists>r. cell_measurements s' = cell_measurements s @ [r] \<and> cell_id r = next_cell_id s \<and>
        next_cell_id s' = next_cell_id s + 1)"
proof (induction cs)
  case Nil
  then show ?case by simp
next
  case (Cons c cs)
  show ?case
  proof (cases "pointPolygonTest L c p \<ge> 0")
    case True
    with Cons.prems show ?thesis
      by (auto simp: add_measurement_to_table_def draw_contour_def update_status_def Let_def
          split: prod.splits list.splits)
  next
    case False
    with Cons show ?thesis by simp
  qed
qed

lemma handle_click_cases:
  "handle_click L s ev = Inr s' \<Longrightarrow>
   s' = s \<or>
   (\<exists>r. cell_measurements s' = cell_measurements s @ [r] \<and> cell_id r = next_cell_id s \<and>
        next_cell_id s' = next_cell_id s + 1)"
  by (auto simp: handle_click_def split: if_splits prod.splits dest: click_contours_cases)

lemma delete_selected_cases:
  "delete_selected_measurement s selected = Inr s' \<Longrightarrow>
   next_cell_id s' = next_cell_id s \<and>
   (cell_measurements s' = cell_measurements s \<or>
    (\<exists>cid. cell_measurements s' = filter (\<lambda>m. cell_id m \<noteq> cid) (cell_measurements s)))"
  by (auto simp: delete_selected_measurement_def update_status_def Let_def
      split: option.splits if_splits)

lemma perform_step:
  assumes "perform L s act = Inr s'"
  shows "next_cell_id s \<le> next_cell_id s'"
    and "set (appended_ids s s') \<subseteq> {next_cell_id s}"
    and "appended_ids s s' \<noteq> [] \<Longrightarrow> next_cell_id s' = next_cell_id s + 1"
    and "length (appended_ids s s') \<le> 1"
    and "\<forall>m \<in> set (cell_measurements s').
           m \<in> set (cell_measurements s) \<or> cell_id m \<in> set (appended_ids s s')"
    and "ids_below_counter s \<Longrightarrow> ids_below_counter s'"
proof -
  consider (same) "cell_measurements s' = cell_measurements s" "next_cell_id s' = next_cell_id s"
    | (new) r where "cell_measurements s' = cell_measurements s @ [r]"
        "cell_id r = next_cell_id s" "next_cell_id s' = next_cell_id s + 1"
    | (del) cid where "cell_measurements s' = filter (\<lambda>m. cell_id m \<noteq> cid) (cell_measurements s)"
        "next_cell_id s' = next_cell_id s"
    using assms
    by (auto simp: perform_def split: action.splits
        dest!: handle_click_cases delete_selected_cases)
  then have "next_cell_id s \<le> next_cell_id s' \<and>
      set (appended_ids s s') \<subseteq> {next_cell_id s} \<and>
      (appended_ids s s' \<noteq> [] \<longrightarrow> next_cell_id s' = next_cell_id s + 1) \<and>
      length (appended_ids s s') \<le> 1 \<and>
      (\<forall>m \<in> set (cell_measurements s').
           m \<in> set (cell_measurements s) \<or> cell_id m \<in> set (appended_ids s s')) \<and>
      (ids_below_counter s \<longrightarrow> ids_below_counter s')"
  proof cases
    case same
    then show ?thesis by (simp add: appended_ids_def ids_below_counter_def)
  next
    case new
    then show ?thesis by (auto simp: appended_ids_def ids_below_counter_def)
  next
    case del
    then show ?thesis by (auto simp: appended_ids_def ids_below_counter_def)
  qed
  then show "next_cell_id s \<le> next_cell_id s'"
    and "set (appended_ids s s') \<subseteq> {next_cell_id s}"
    and "appended_ids s s' \<noteq> [] \<Longrightarrow> next_cell_id s' = next_cell_id s + 1"
    and "length (appended_ids s s') \<le> 1"
    and "\<forall>m \<in> set (cell_measurements s').
           m \<in> set (cell_measurements s) \<or> cell_id m \<in> set (appended_ids s s')"
    and "ids_below_counter s \<Longrightarrow> ids_below_counter s'"
    by blast+
qed

lemma assigned_ids_lower: "i \<in> set (assigned_ids L s acts) \<Longrightarrow> next_cell_id s \<le> i"
proof (induction acts arbitrary: s)
  case Nil
  then show ?case by simp
next
  case (Cons act acts)
  show ?case
  proof (cases "perform L s act")
    case (Inl e)
    with Cons.prems show ?thesis by simp
  next
    case (Inr s1)
    from Cons.prems Inr consider "i \<in> set (appended_ids s s1)" | "i \<in> set (assigned_ids L s1 acts)"
      by auto
    then show ?thesis
    proof cases
      case 1
      then show ?thesis using perform_step(2) [OF Inr] by auto
    next
      case 2
      then show ?thesis using Cons.IH [of s1] perform_step(1) [OF Inr] by linarith
    qed
  qed
qed

lemma assigned_ids_sorted: "sorted_wrt (<) (assigned_ids L s acts)"
proof (induction acts arbitrary: s)
  case Nil
  then show ?case by simp
next
  case (Cons act acts)
  show ?case
  proof (cases "perform L s act")
    case (Inl e)
    then show ?thesis by simp
  next
    case (Inr s1)
    show ?thesis
    proof (cases "appended_ids s s1")
      case Nil
      then show ?thesis using Inr Cons.IH [of s1] by simp
    next
      case (Cons i rest)
      then have "rest = []" using perform_step(4) [OF Inr] by simp
      moreover have "i = next_cell_id s" using perform_step(2) [OF Inr] Cons by simp
      moreover have "next_cell_id s1 = next_cell_id s + 1"
        using perform_step(3) [OF Inr] Cons by simp
      moreover have "\<forall>j \<in> set (assigned_ids L s1 acts). next_cell_id s1 \<le> j"
        using assigned_ids_lower by blast
      ultimately show ?thesis
        using Inr Cons Cons.IH [of s1] by (auto simp: sorted_wrt_append)
    qed
  qed
qed

lemma perform_all_run:
  "perform_all L s acts = Inr s' \<Longrightarrow>
   next_cell_id s \<le> next_cell_id s' \<and>
   (\<forall>i \<in> set (assigned_ids L s acts). i < next_cell_id s') \<and>
   (\<forall>m \<in> set (cell_measurements s').
       m \<in> set (cell_measurements s) \<or> cell_id m \<in> set (assigned_ids L s acts)) \<and>
   (ids_below_counter s \<longrightarrow> ids_below_counter s')"
proof (induction acts arbitrary: s)
  case Nil
  then show ?case by simp
next
  case (Cons act acts)
  then obtain s1 where step: "perform L s act = Inr s1" and rest: "perform_all L s1 acts = Inr s'"
    by (auto split: sum.splits)
  note ih = Cons.IH [OF rest]
  have mono: "next_cell_id s \<le> next_cell_id s'"
    using ih perform_step(1) [OF step] by linarith
  have upper: "\<forall>i \<in> set (assigned_ids L s (act # acts)). i < next_cell_id s'"
  proof
    fix i assume "i \<in> set (assigned_ids L s (act # acts))"
    then consider "i \<in> set (appended_ids s s1)" | "i \<in> set (assigned_ids L s1 acts)"
      using step by auto
    then show "i < next_cell_id s'"
    proof cases
      case 1
      then have ne: "appended_ids s s1 \<noteq> []" by auto
      have "i = next_cell_id s" "next_cell_id s1 = next_cell_id s + 1"
        using 1 perform_step(2) [OF step] perform_step(3) [OF step ne] by auto
      then show ?thesis using ih by linarith
    next
      case 2
      then show ?thesis using ih by blast
    qed
  qed
  have origin: "\<forall>m \<in> set (cell_measurements s').
       m \<in> set (cell_measurements s) \<or> cell_id m \<in> set (assigned_ids L s (act # acts))"
    using ih perform_step(5) [OF step] step by auto
  have inv: "ids_below_counter s \<longrightarrow> ids_below_counter s'"
    using ih perform_step(6) [OF step] by blast
  from mono upper origin inv show ?case by blast
qed

text \<open>
  C4. Take a tab whose records all have ids below the counter (as after an image was
  analysed, or after any earlier run) and any run of clicks and deletions that returns.
  The ids given to the records created along the run are strictly increasing; each is
  at least the counter at the start, hence greater than the id of every record the tab
  held then, and below the counter at the end. The counter never decreases, all ids
  still are below it at the end, and every record at the end is an unchanged record of
  the start or one created in the run. A deletion leaves the counter as it is and
  leaves only records that were there before.
\<close>

theorem ids_never_reused:
  assumes inv: "ids_below_counter s"
    and run: "perform_all L s acts = Inr s'"
  shows "sorted_wrt (<) (assigned_ids L s acts) \<and>
         (\<forall>i \<in> set (assigned_ids L s acts).
            next_cell_id s \<le> i \<and> i < next_cell_id s' \<and>
            (\<forall>m \<in> set (cell_measurements s). cell_id m < i)) \<and>
         next_cell_id s \<le> next_cell_id s' \<and>
         ids_below_counter s' \<and>
         (\<forall>m \<in> set (cell_measurements s').
            m \<in> set (cell_measurements s) \<or> cell_id m \<in> set (assigned_ids L s acts)) \<and>
         (\<forall>selected s1. delete_selected_measurement s selected = Inr s1 \<longrightarrow>
            next_cell_id s1 = next_cell_id s \<and>
            set (cell_measurements s1) \<subseteq> set (cell_measurements s))"
proof -
  have old: "\<forall>i \<in> set (assigned_ids L s acts). \<forall>m \<in> set (cell_measurements s). cell_id m < i"
    using inv assigned_ids_lower [of _ L s acts] by (fastforce simp: ids_below_counter_def)
  have del: "\<forall>selected s1. delete_selected_measurement s selected = Inr s1 \<longrightarrow>
            next_cell_id s1 = next_cell_id s \<and>
            set (cell_measurements s1) \<subseteq> set (cell_measurements s)"
    by (auto dest!: delete_selected_cases)
  show ?thesis
    using assigned_ids_sorted [of L s acts] assigned_ids_lower [of _ L s acts]
      perform_all_run [OF run] inv old del
    by blast
qed

lemmas sample_defs = handle_click_def click0_def int_py_def tab0_def lib0_def box_test_def
  bounding_box_def region_far_def region_a_def region_b_def polygon_area_def
  add_measurement_to_table_def draw_contour_def update_status_def Let_def
  delete_selected_measurement_def perform_def appended_ids_def

lemma run0_result: "perform_all lib0 tab0 run0 = Inr tab_after_run"
  by (simp add: run0_def tab_after_run_def sample_defs)

lemma run0_ids: "assigned_ids lib0 tab0 run0 = [1, 2]"
  by (simp add: run0_def sample_defs)

theorem ids_never_reused_witness:
  "perform_all lib0 tab0 run0 = Inr tab_after_run \<and>
   assigned_ids lib0 tab0 run0 = [1, 2] \<and>
   sorted_wrt (<) (assigned_ids lib0 tab0 run0) \<and>
   next_cell_id tab0 \<le> next_cell_id tab_after_run \<and>
   ids_below_counter tab_after_run"
proof -
  have inv: "ids_below_counter tab0"
    by (simp add: ids_below_counter_def tab0_def)
  show ?thesis
    using ids_never_reused [OF inv run0_result] run0_result run0_ids by simp
qed

subsection \<open>Measuring a line\<close>

lemma np_length:
  "0 \<le> x \<Longrightarrow> 0 \<le> y \<Longrightarrow> np_mul (np_sqrt x) (np_sqrt y) = Finite (sqrt x * sqrt y)"
  by (simp add: np_sqrt_def)

text \<open>
  Releasing the mouse after a line was started at a point \<open>start\<close> that Qt treats as
  true gives, as the length of the line, the product of \<^verbatim>\<open>np.sqrt\<close> of the squared pixel
  distance and \<^verbatim>\<open>np.sqrt\<close> of the product of the pixel sizes; where that product is
  not negative this is the Euclidean distance in pixels times
  \<open>sqrt (pixel_width_um * pixel_height_um)\<close>. No measurement record, table row or id counter
  is touched, whether a line was started or not.
\<close>

lemma handle_line_release_length:
  "(line_start_point s = Some start \<and> point_bool L start \<longrightarrow>
      handle_line_release L s ev =
        s\<lparr>current_line_items := current_line_items s @ [(start, pos ev)],
          line_length_label :=
            Some (np_mul (np_sqrt ((fst (pos ev) - fst start)\<^sup>2 + (snd (pos ev) - snd start)\<^sup>2))
                         (np_sqrt (pixel_width_um s * pixel_height_um s))),
          status :=
            LineDrawn (np_mul (np_sqrt ((fst (pos ev) - fst start)\<^sup>2 + (snd (pos ev) - snd start)\<^sup>2))
                              (np_sqrt (pixel_width_um s * pixel_height_um s))),
          line_start_point := None\<rparr>) \<and>
   cell_measurements (handle_line_release L s ev) = cell_measurements s \<and>
   measurements_table (handle_line_release L s ev) = measurements_table s \<and>
   next_cell_id (handle_line_release L s ev) = next_cell_id s"
  by (simp add: handle_line_release_def clear_temp_items_def update_status_def Let_def
      split: option.splits)

lemma handle_line_release_finite:
  assumes "line_start_point s = Some start" "point_bool L start"
    and "0 \<le> pixel_width_um s * pixel_height_um s"
  shows "line_length_label (handle_line_release L s ev) =
     Some (Finite (sqrt ((fst (pos ev) - fst start)\<^sup>2 + (snd (pos ev) - snd start)\<^sup>2) *
                   sqrt (pixel_width_um s * pixel_height_um s)))"
  using assms handle_line_release_length [of s start L ev]
  by (simp add: np_length)

lemma handle_line_release_example:
  "handle_line_release lib0 tab_line release0 =
     tab_line\<lparr>current_line_items := [((3, 4), (6, 8))],
       line_length_label := Some (Finite (1 / 2)), status := LineDrawn (Finite (1 / 2)),
       line_start_point := None\<rparr>"
proof -
  have start: "line_start_point tab_line = Some (3, 4) \<and> point_bool lib0 (3, 4)"
    by (simp add: tab_line_def lib0_def)
  have px: "pixel_width_um tab_line * pixel_height_um tab_line = 1 / 100"
    by (simp add: tab_line_def tab_measured_def tab0_def)
  have len: "(fst (pos release0) - fst (3, 4 :: real))\<^sup>2 + (snd (pos release0) - snd (3 :: real, 4))\<^sup>2 = (25 :: real)"
    by (simp add: release0_def)
  have items: "current_line_items tab_line = []"
    by (simp add: tab_line_def tab_measured_def tab0_def)
  show ?thesis
    using handle_line_release_length [of tab_line "(3, 4)" lib0 release0] start
    by (simp add: px len items np_sqrt_def sqrt_25 sqrt_hundredth release0_def)
qed

lemma handle_line_release_false_start:
  "line_start_point s = Some start \<Longrightarrow> \<not> point_bool L start \<Longrightarrow>
   handle_line_release L s ev = s"
  by (simp add: handle_line_release_def)

text \<open>
  C8. The claim asks for the length of the line between every two end points. Line 472
  tests the start point itself (\<^verbatim>\<open>if self.line_start_point:\<close>), not whether there is
  one, and Qt gives the point (0, 0) the truth value false: for a line started at the
  origin of the scene and released at (6, 8), with pixels of 0.1 by 0.1 micrometres,
  \<^verbatim>\<open>handle_line_release\<close> does nothing. The label shows no length (it should show 1),
  the line is not drawn and the start point stays set. The same line started at (3, 4)
  is measured (\<open>handle_line_release_example\<close>).
\<close>

theorem handle_line_release_origin_start:
  "line_start_point tab_line_origin = Some (0, 0) \<and>
   point_bool lib0 (0, 0) = False \<and>
   handle_line_release lib0 tab_line_origin release0 = tab_line_origin \<and>
   line_length_label tab_line_origin = None"
  by (simp add: handle_line_release_def tab_line_origin_def tab_measured_def tab0_def lib0_def)

subsection \<open>Loading a stored tab\<close>

lemma serializable_of_json: "serializable (of_json m) = m"
  by (simp add: serializable_def of_json_def)

lemma restore_measurements_eq:
  "drawable_json ms \<Longrightarrow>
   restore_measurements s ms =
     Inr (s\<lparr>cell_measurements := cell_measurements s @ map of_json ms,
             measurements_table := measurements_table s @ map js_id ms\<rparr>)"
proof (induction ms arbitrary: s)
  case Nil
  then show ?case by simp
next
  case (Cons m ms)
  then have ne: "js_contour_data m \<noteq> []" and rest: "drawable_json ms"
    by (simp_all add: drawable_json_def)
  show ?case
    by (simp add: add_measurement_nonempty [OF ne] Cons.IH [OF rest] of_json_def)
qed

lemma analyze_image_ok:
  assumes "shape L (cvtColor_BGR2RGB L img) = (rows, cols)" "0 < rows" "0 < cols"
  shows "analyze_image L s (Some img) =
     Inr (s\<lparr>img_color := Some (cvtColor_BGR2RGB L img),
             img_gray := Some (cvtColor_BGR2GRAY L img),
             contours := filter (\<lambda>c. contourArea L c > MIN_CONTOUR_AREA)
                           (findContours L (cvtColor_BGR2GRAY L img) THRESHOLD_VALUE),
             pixel_width_um := image_width_um s / real cols,
             pixel_height_um := image_height_um s / real rows,
             current_line_items := [], cell_measurements := [], measurements_table := [],
             next_cell_id := 1, status := ScaledToFit\<rparr>)"
  using assms
  by (simp add: analyze_image_def Let_def clear_all_outlines_def auto_scale_image_def
      update_status_def)

lemma load_state_no_image:
  "js_image_b64 state = None \<or> js_image_b64 state = Some [] \<Longrightarrow>
   load_state L s state = Inr (load_failed NoImageData s)"
  by (auto simp: load_state_def)

lemma load_state_bad_base64:
  "js_image_b64 state = Some b \<Longrightarrow> b \<noteq> [] \<Longrightarrow> b64decode L b = None \<Longrightarrow>
   load_state L s state = Inr (load_failed Base64Error s)"
  by (simp add: load_state_def)

lemma load_state_ok:
  assumes b: "js_image_b64 state = Some b" "b \<noteq> []"
    and data: "b64decode L b = Some data"
    and img: "imdecode L data = Inr (Some img)"
    and sh: "shape L (cvtColor_BGR2RGB L img) = (rows, cols)" "0 < rows" "0 < cols"
    and ms: "drawable_json (get_or (js_cell_measurements state) [])"
  shows "load_state L s state =
     Inr (s\<lparr>image_width_um := get_or (js_image_width_um state) 100,
             height_input := str_py L (image_height_um s),
             image_height_um := get_or (js_image_height_um state) 100,
             width_input := str_py L (get_or (js_image_width_um state) 100),
             img_color := Some (cvtColor_BGR2RGB L img),
             img_gray := Some (cvtColor_BGR2GRAY L img),
             contours := filter (\<lambda>c. contourArea L c > MIN_CONTOUR_AREA)
                           (findContours L (cvtColor_BGR2GRAY L img) THRESHOLD_VALUE),
             pixel_width_um := get_or (js_image_width_um state) 100 / real cols,
             pixel_height_um := get_or (js_image_height_um state) 100 / real rows,
             current_line_items := [],
             cell_measurements := map of_json (get_or (js_cell_measurements state) []),
             measurements_table := map js_id (get_or (js_cell_measurements state) []),
             next_cell_id := get_or (js_next_cell_id state) 1,
             status := LoadedImage (length (get_or (js_cell_measurements state) []))\<rparr>)"
  using b data img
  by (simp add: load_state_def Let_def analyze_image_ok [OF sh]
      restore_measurements_eq [OF ms] update_status_def)

text \<open>
  C10. \<^verbatim>\<open>load_state\<close> rejects a stored tab whose \<^verbatim>\<open>image_b64\<close> is absent or empty: it
  reports "No image data found in state." and restores nothing. When the image is there
  and decodes (to an image with at least one row and column, and with stored polygons
  that have a point), no error is reported whichever of the other keys are absent: an
  absent width or height is 100.0, an absent \<^verbatim>\<open>next_cell_id\<close> is 1, an absent list of
  measurements is empty; a key that is present gives its value.
\<close>

theorem load_state_defaults:
  "((js_image_b64 state = None \<or> js_image_b64 state = Some []) \<longrightarrow>
      load_state L s state = Inr (load_failed NoImageData s)) \<and>
   (js_image_b64 state = Some b \<and> b \<noteq> [] \<and> b64decode L b = Some data \<and>
    imdecode L data = Inr (Some img) \<and>
    0 < fst (shape L (cvtColor_BGR2RGB L img)) \<and> 0 < snd (shape L (cvtColor_BGR2RGB L img)) \<and>
    drawable_json (get_or (js_cell_measurements state) []) \<longrightarrow>
      (\<exists>s'. load_state L s state = Inr s' \<and> dialogs s' = dialogs s \<and>
         image_width_um s' = (case js_image_width_um state of None \<Rightarrow> 100 | Some w \<Rightarrow> w) \<and>
         image_height_um s' = (case js_image_height_um state of None \<Rightarrow> 100 | Some h \<Rightarrow> h) \<and>
         next_cell_id s' = (case js_next_cell_id state of None \<Rightarrow> 1 | Some n \<Rightarrow> n) \<and>
         map serializable (cell_measurements s') =
           (case js_cell_measurements state of None \<Rightarrow> [] | Some ms \<Rightarrow> ms)))"
proof (intro conjI impI)
  assume "js_image_b64 state = None \<or> js_image_b64 state = Some []"
  then show "load_state L s state = Inr (load_failed NoImageData s)"
    by (rule load_state_no_image)
next
  assume a: "js_image_b64 state = Some b \<and> b \<noteq> [] \<and> b64decode L b = Some data \<and>
    imdecode L data = Inr (Some img) \<and>
    0 < fst (shape L (cvtColor_BGR2RGB L img)) \<and> 0 < snd (shape L (cvtColor_BGR2RGB L img)) \<and>
    drawable_json (get_or (js_cell_measurements state) [])"
  obtain rows cols where sh: "shape L (cvtColor_BGR2RGB L img) = (rows, cols)"
    by (cases "shape L (cvtColor_BGR2RGB L img)") auto
  with a have pos: "0 < rows" "0 < cols" by simp_all
  from a have b: "js_image_b64 state = Some b" "b \<noteq> []"
    and data: "b64decode L b = Some data" and img: "imdecode L data = Inr (Some img)"
    and ms: "drawable_json (get_or (js_cell_measurements state) [])"
    by simp_all
  have "load_state L s state = Inr
     (s\<lparr>image_width_um := get_or (js_image_width_um state) 100,
             height_input := str_py L (image_height_um s),
             image_height_um := get_or (js_image_height_um state) 100,
             width_input := str_py L (get_or (js_image_width_um state) 100),
             img_color := Some (cvtColor_BGR2RGB L img),
             img_gray := Some (cvtColor_BGR2GRAY L img),
             contours := filter (\<lambda>c. contourArea L c > MIN_CONTOUR_AREA)
                           (findContours L (cvtColor_BGR2GRAY L img) THRESHOLD_VALUE),
             pixel_width_um := get_or (js_image_width_um state) 100 / real cols,
             pixel_height_um := get_or (js_image_height_um state) 100 / real rows,
             current_line_items := [],
             cell_measurements := map of_json (get_or (js_cell_measurements state) []),
             measurements_table := map js_id (get_or (js_cell_measurements state) []),
             next_cell_id := get_or (js_next_cell_id state) 1,
             status := LoadedImage (length (get_or (js_cell_measurements state) []))\<rparr>)"
    by (rule load_state_ok [OF b data img sh pos ms])
  then show "\<exists>s'. load_state L s state = Inr s' \<and> dialogs s' = dialogs s \<and>
         image_width_um s' = (case js_image_width_um state of None \<Rightarrow> 100 | Some w \<Rightarrow> w) \<and>
         image_height_um s' = (case js_image_height_um state of None \<Rightarrow> 100 | Some h \<Rightarrow> h) \<and>
         next_cell_id s' = (case js_next_cell_id state of None \<Rightarrow> 1 | Some n \<Rightarrow> n) \<and>
         map serializable (cell_measurements s') =
           (case js_cell_measurements state of None \<Rightarrow> [] | Some ms \<Rightarrow> ms)"
    by (simp add: get_or_def comp_def serializable_of_json split: option.splits)
qed

lemmas lib0_codec = lib0_def raster_decode_def raster_encode_def eval_nat_numeral

theorem load_state_defaults_witness:
  "\<exists>s'. load_state lib0 (new_tab lib0) state_only_image = Inr s' \<and>
     dialogs s' = [] \<and> image_width_um s' = 100 \<and> image_height_um s' = 100 \<and>
     next_cell_id s' = 1 \<and> cell_measurements s' = [] \<and>
     load_state lib0 (new_tab lib0) (state_only_image\<lparr>js_image_b64 := None\<rparr>) =
       Inr (load_failed NoImageData (new_tab lib0))"
proof -
  have ok: "js_image_b64 state_only_image = Some ''b64,rc:bgr'' \<and> ''b64,rc:bgr'' \<noteq> [] \<and>
      b64decode lib0 ''b64,rc:bgr'' = Some ''rc:bgr'' \<and>
      imdecode lib0 ''rc:bgr'' = Inr (Some (1, 1, ''bgr'')) \<and>
      0 < fst (shape lib0 (cvtColor_BGR2RGB lib0 (1, 1, ''bgr''))) \<and>
      0 < snd (shape lib0 (cvtColor_BGR2RGB lib0 (1, 1, ''bgr''))) \<and>
      drawable_json (get_or (js_cell_measurements state_only_image) [])"
    by (simp add: state_only_image_def lib0_codec get_or_def drawable_json_def)
  have missing: "js_image_b64 (state_only_image\<lparr>js_image_b64 := None\<rparr>) = None"
    by simp
  show ?thesis
    using load_state_defaults [of state_only_image lib0 "new_tab lib0" "''b64,rc:bgr''" "''rc:bgr''" "(1, 1, ''bgr'')"] ok
      load_state_defaults [of "state_only_image\<lparr>js_image_b64 := None\<rparr>" lib0 "new_tab lib0"] missing
    by (auto simp: state_only_image_def new_tab_def)
qed

subsection \<open>Saving a project and loading it again\<close>

lemma drawable_json_serializable:
  "drawable ms \<Longrightarrow> drawable_json (map serializable ms)"
  by (induction ms) (simp_all add: drawable_def drawable_json_def serializable_def)

lemma same_record_of_json: "same_record m (of_json (serializable m))"
  by (simp add: same_record_def of_json_def serializable_def)

lemma same_records_restored:
  "list_all2 same_record ms (map of_json (map serializable ms))"
  by (induction ms) (simp_all add: same_record_of_json)

lemma save_load_tab:
  assumes img: "image_round_trips L s"
    and dr: "drawable (cell_measurements s)"
  shows "\<exists>st s'. save_state L parent_text s = Some st \<and>
           load_state L t (st\<lparr>js_title := title\<rparr>) = Inr s' \<and> same_project_state s s'"
proof -
  from img obtain color where color: "img_color s = Some color" and ll: "lossless_on L color"
    by (auto simp: image_round_trips_def split: option.splits)
  define bgr where "bgr = cvtColor_RGB2BGR L color"
  define png where "png = imencode_png L bgr"
  define st where "st =
     \<lparr>js_title = Some (case parent_text of Some t \<Rightarrow> t | None \<Rightarrow> ''Untitled Tab''),
      js_image_b64 = Some (b64encode L png),
      js_image_width_um = Some (image_width_um s),
      js_image_height_um = Some (image_height_um s),
      js_cell_measurements = Some (map serializable (cell_measurements s)),
      js_next_cell_id = Some (next_cell_id s)\<rparr>"
  have saved: "save_state L parent_text s = Some st"
    by (simp add: save_state_def color st_def png_def bgr_def Let_def)
  from ll have ne: "b64encode L png \<noteq> []"
    and b64: "b64decode L (b64encode L png) = Some png"
    and dec: "imdecode L png = Inr (Some bgr)"
    and rgb: "cvtColor_BGR2RGB L bgr = color"
    and pos: "0 < fst (shape L color)" "0 < snd (shape L color)"
    by (simp_all add: lossless_on_def Let_def png_def bgr_def)
  have sh: "shape L (cvtColor_BGR2RGB L bgr) = (fst (shape L color), snd (shape L color))"
    by (simp add: rgb)
  have b: "js_image_b64 (st\<lparr>js_title := title\<rparr>) = Some (b64encode L png)"
    by (simp add: st_def)
  have ms: "drawable_json (get_or (js_cell_measurements (st\<lparr>js_title := title\<rparr>)) [])"
    using dr by (simp add: st_def get_or_def drawable_json_serializable)
  note loaded = load_state_ok [OF b ne b64 dec sh pos ms, of t]
  have "same_project_state s (projr (load_state L t (st\<lparr>js_title := title\<rparr>)))"
    unfolding loaded
    using same_records_restored [of "cell_measurements s"]
    by (simp add: same_project_state_def rgb color st_def get_or_def)
  with saved loaded show ?thesis by auto
qed

lemma load_tabs_project_states:
  "\<forall>(title, s) \<in> set ts. image_round_trips L s \<and> drawable (cell_measurements s) \<Longrightarrow>
   \<exists>new. load_tabs L a (map TabObject (project_states L ts)) =
            Returned True (a\<lparr>tabs := tabs a @ new, app_status := ProjectLoaded\<rparr>) \<and>
         map fst new = map fst ts \<and>
         list_all2 same_project_state (map snd ts) (map snd new)"
proof (induction ts arbitrary: a)
  case Nil
  then show ?case by simp
next
  case (Cons ts1 ts)
  obtain title s where ts1: "ts1 = (title, s)" by (cases ts1)
  with Cons.prems have ok: "image_round_trips L s" "drawable (cell_measurements s)"
    and rest: "\<forall>(title, s) \<in> set ts. image_round_trips L s \<and> drawable (cell_measurements s)"
    by auto
  from save_load_tab [OF ok, of "Some title" "new_tab L" "Some title"]
  obtain st s' where saved: "save_state L (Some title) s = Some st"
    and loaded: "load_state L (new_tab L) (st\<lparr>js_title := Some title\<rparr>) = Inr s'"
    and same: "same_project_state s s'"
    by blast
  from Cons.IH [OF rest, of "a\<lparr>tabs := tabs a @ [(title, s')]\<rparr>"]
  obtain new where run: "load_tabs L (a\<lparr>tabs := tabs a @ [(title, s')]\<rparr>)
        (map TabObject (project_states L ts)) =
      Returned True (a\<lparr>tabs := tabs a @ (title, s') # new, app_status := ProjectLoaded\<rparr>)"
    and titles: "map fst new = map fst ts"
    and states: "list_all2 same_project_state (map snd ts) (map snd new)"
    by auto
  have "load_tabs L a (map TabObject (project_states L (ts1 # ts))) =
      Returned True (a\<lparr>tabs := tabs a @ (title, s') # new, app_status := ProjectLoaded\<rparr>)"
    by (simp add: ts1 saved loaded run get_or_def)
  moreover have "map fst ((title, s') # new) = map fst (ts1 # ts)"
    by (simp add: ts1 titles)
  moreover have "list_all2 same_project_state (map snd (ts1 # ts)) (map snd ((title, s') # new))"
    by (simp add: ts1 same states)
  ultimately show ?case by blast
qed

text \<open>
  C1. Save a window whose tabs all hold an image on which the library's codecs are
  lossless (and whose records have drawable polygons), and load the document that was
  written, into any window. The load succeeds and gives as many tabs, in the same order,
  with the same titles; each loaded tab has the same image, the same width and height in
  micrometres, records with the same ids, polygons, areas, widths and heights, and the
  same id counter as the tab that was saved. (The stored floats are read back as they
  were written, so the derived values are equal, not only close.)
\<close>

theorem save_load_round_trip:
  assumes saved: "save_project L a = (Some doc, a1)"
    and ok: "\<forall>(title, s) \<in> set (tabs a). image_round_trips L s \<and> drawable (cell_measurements s)"
  shows "\<exists>a'. load_project_from_path L b (Parsed (JsonObject doc)) = Returned True a' \<and>
           map fst (tabs a') = map fst (tabs a) \<and>
           list_all2 same_project_state (map snd (tabs a)) (map snd (tabs a'))"
proof -
  from saved have doc: "js_tabs doc = Some (TabList (map TabObject (project_states L (tabs a))))"
    by (auto simp: save_project_def split: if_splits)
  from load_tabs_project_states [OF ok, of "b\<lparr>tabs := []\<rparr>"]
  obtain new where "load_tabs L (b\<lparr>tabs := []\<rparr>) (map TabObject (project_states L (tabs a))) =
      Returned True (b\<lparr>tabs := new, app_status := ProjectLoaded\<rparr>)"
    and "map fst new = map fst (tabs a)"
    and "list_all2 same_project_state (map snd (tabs a)) (map snd new)"
    by auto
  then show ?thesis
    by (simp add: load_project_from_path_def contains_tabs_def stored_tabs_def doc)
qed

lemma image_round_trips_tab_small: "image_round_trips lib0 tab_small"
  by (simp add: image_round_trips_def tab_small_def lossless_on_def lib0_codec)

lemma drawable_tab_small: "drawable (cell_measurements tab_small)"
  by (simp add: drawable_def tab_small_def tab_measured_def region_a_def region_b_def)

theorem save_load_round_trip_witness:
  "\<exists>doc a1 a'. save_project lib0 app_cells = (Some doc, a1) \<and>
     load_project_from_path lib0 app0 (Parsed (JsonObject doc)) = Returned True a' \<and>
     map fst (tabs a') = [''cells'', ''no cells''] \<and>
     list_all2 same_project_state (map snd (tabs app_cells)) (map snd (tabs a'))"
proof -
  obtain doc a1 where saved: "save_project lib0 app_cells = (Some doc, a1)"
    by (simp add: save_project_def app_cells_def)
  have ok: "\<forall>(title, s) \<in> set (tabs app_cells). image_round_trips lib0 s \<and> drawable (cell_measurements s)"
    using image_round_trips_tab_small drawable_tab_small
    by (simp add: app_cells_def image_round_trips_def drawable_def tab_small_def)
  from save_load_round_trip [OF saved ok, of app0] saved show ?thesis
    by (auto simp: app_cells_def)
qed

subsection \<open>Tabs without an image, and loads that fail\<close>

lemma project_states_titles:
  "map js_title (project_states L ts) = map (\<lambda>titled. Some (fst titled)) (filter has_color ts)"
proof (induction ts)
  case Nil
  then show ?case by simp
next
  case (Cons ts1 ts)
  obtain title s where "ts1 = (title, s)" by (cases ts1)
  with Cons show ?case
    by (cases "img_color s") (simp_all add: save_state_def has_color_def Let_def)
qed

lemma load_tabs_titles:
  "load_tabs L a (map TabObject states) = Returned r a' \<Longrightarrow>
   r \<and> map fst (tabs a') =
         map fst (tabs a) @ map (\<lambda>st. get_or (js_title st) ''Loaded Tab'') states"
proof (induction states arbitrary: a)
  case Nil
  then show ?case by auto
next
  case (Cons st states)
  then show ?case
    by (cases "load_state L (new_tab L) st") auto
qed

lemma load_tabs_fresh:
  "\<exists>new. tabs (window (load_tabs L a states)) = tabs a @ new \<and>
     list_all2 (fresh_load L) (take (length new) states) new \<and>
     (\<forall>r a'. load_tabs L a states = Returned r a' \<longrightarrow> r \<and> length new = length states)"
proof (induction states arbitrary: a)
  case Nil
  then show ?case by simp
next
  case (Cons stored states)
  show ?case
  proof (cases stored)
    case NotAnObject
    then show ?thesis by simp
  next
    case (TabObject st)
    show ?thesis
    proof (cases "load_state L (new_tab L) st")
      case (Inl e)
      with TabObject show ?thesis by simp
    next
      case (Inr s)
      define a1 where "a1 = a\<lparr>tabs := tabs a @ [(get_or (js_title st) ''Loaded Tab'', s)]\<rparr>"
      have step: "load_tabs L a (stored # states) = load_tabs L a1 states"
        by (simp add: TabObject Inr a1_def)
      from Cons.IH [of a1] obtain new where
        new: "tabs (window (load_tabs L a1 states)) = tabs a1 @ new"
        "list_all2 (fresh_load L) (take (length new) states) new"
        "\<forall>r a'. load_tabs L a1 states = Returned r a' \<longrightarrow> r \<and> length new = length states"
        by blast
      have first: "fresh_load L stored (get_or (js_title st) ''Loaded Tab'', s)"
        by (simp add: fresh_load_def TabObject Inr)
      have "tabs (window (load_tabs L a (stored # states))) =
          tabs a @ (get_or (js_title st) ''Loaded Tab'', s) # new"
        using new(1) by (simp add: step a1_def)
      moreover have "list_all2 (fresh_load L)
          (take (length ((get_or (js_title st) ''Loaded Tab'', s) # new)) (stored # states))
          ((get_or (js_title st) ''Loaded Tab'', s) # new)"
        using new(2) first by simp
      moreover have "\<forall>r a'. load_tabs L a (stored # states) = Returned r a' \<longrightarrow>
          r \<and> length ((get_or (js_title st) ''Loaded Tab'', s) # new) = length (stored # states)"
        using new(3) by (auto simp: step)
      ultimately show ?thesis by blast
    qed
  qed
qed

lemma load_tabs_not_False: "load_tabs L a states \<noteq> Returned False a'"
  using load_tabs_fresh [of L a states] by auto

lemma load_project_returns_False:
  "(\<exists>a'. load_project_from_path L a (Parsed v) = Returned False a') \<longleftrightarrow>
   contains_tabs v = Inr False"
proof (cases "contains_tabs v")
  case (Inl e)
  then show ?thesis by (simp add: load_project_from_path_def)
next
  case (Inr present)
  show ?thesis
  proof (cases present)
    case True
    then show ?thesis
      using Inr
      by (cases "stored_tabs v") (simp_all add: load_project_from_path_def load_tabs_not_False)
  next
    case False
    then show ?thesis
      using Inr by (simp add: load_project_from_path_def project_load_failed_def)
  qed
qed

text \<open>
  C9. \<^verbatim>\<open>save_state\<close> gives \<^verbatim>\<open>None\<close> for a tab without an image, and
  \<^verbatim>\<open>save_project\<close> leaves such a tab out: the stored tabs are, in order and under their
  titles, the tabs of the window that have an image. Loading the document therefore
  gives tabs for these titles only.
\<close>

theorem save_project_omits_tabs_without_image:
  "(img_color s = None \<longrightarrow> save_state L parent_text s = None) \<and>
   (save_project L a = (Some doc, a1) \<longrightarrow>
      (\<exists>states. js_tabs doc = Some (TabList (map TabObject states)) \<and>
         map js_title states = map (\<lambda>titled. Some (fst titled)) (filter has_color (tabs a))) \<and>
      (\<forall>b r a'. load_project_from_path L b (Parsed (JsonObject doc)) = Returned r a' \<longrightarrow>
         map fst (tabs a') = map fst (filter has_color (tabs a))))"
proof (intro conjI impI)
  assume "img_color s = None"
  then show "save_state L parent_text s = None"
    by (simp add: save_state_def)
next
  assume "save_project L a = (Some doc, a1)"
  then have doc: "js_tabs doc = Some (TabList (map TabObject (project_states L (tabs a))))"
    by (auto simp: save_project_def split: if_splits)
  then show "\<exists>states. js_tabs doc = Some (TabList (map TabObject states)) \<and>
         map js_title states = map (\<lambda>titled. Some (fst titled)) (filter has_color (tabs a))"
    using project_states_titles by blast
  show "\<forall>b r a'. load_project_from_path L b (Parsed (JsonObject doc)) = Returned r a' \<longrightarrow>
         map fst (tabs a') = map fst (filter has_color (tabs a))"
  proof (intro allI impI)
    fix b r a'
    assume "load_project_from_path L b (Parsed (JsonObject doc)) = Returned r a'"
    then have "load_tabs L (b\<lparr>tabs := []\<rparr>) (map TabObject (project_states L (tabs a))) =
        Returned r a'"
      by (simp add: load_project_from_path_def contains_tabs_def stored_tabs_def doc)
    from load_tabs_titles [OF this]
    have "map fst (tabs a') =
        map (\<lambda>st. get_or (js_title st) ''Loaded Tab'') (project_states L (tabs a))"
      by simp
    also have "\<dots> = map (\<lambda>t. get_or t ''Loaded Tab'') (map js_title (project_states L (tabs a)))"
      by (simp add: comp_def)
    also have "\<dots> = map fst (filter has_color (tabs a))"
      by (simp add: project_states_titles comp_def get_or_def)
    finally show "map fst (tabs a') = map fst (filter has_color (tabs a))" .
  qed
qed

theorem save_project_omits_tabs_without_image_witness:
  "\<exists>doc a1 a'. save_state lib0 (Some ''blank'') (new_tab lib0) = None \<and>
     save_project lib0 app0 = (Some doc, a1) \<and>
     load_project_from_path lib0 app0 (Parsed (JsonObject doc)) = Returned True a' \<and>
     map fst (tabs a') = [''cells'']"
proof -
  obtain doc a1 where saved: "save_project lib0 app0 = (Some doc, a1)"
    by (simp add: save_project_def app0_def)
  then have doc: "js_tabs doc = Some (TabList (map TabObject (project_states lib0 (tabs app0))))"
    by (auto simp: save_project_def split: if_splits)
  have blank: "img_color (new_tab lib0) = None"
    by (simp add: new_tab_def)
  have kept: "filter has_color (tabs app0) = [(''cells'', tab_small)]"
    by (simp add: app0_def has_color_def new_tab_def tab_small_def)
  have "\<forall>(title, s) \<in> set [(''cells'', tab_small)].
      image_round_trips lib0 s \<and> drawable (cell_measurements s)"
    using image_round_trips_tab_small drawable_tab_small by simp
  from load_tabs_project_states [OF this, of "app0\<lparr>tabs := []\<rparr>"]
  obtain a' where "load_tabs lib0 (app0\<lparr>tabs := []\<rparr>)
      (map TabObject (project_states lib0 [(''cells'', tab_small)])) = Returned True a'"
    by blast
  then have loaded: "load_project_from_path lib0 app0 (Parsed (JsonObject doc)) = Returned True a'"
    by (simp add: load_project_from_path_def contains_tabs_def stored_tabs_def doc app0_def
        new_tab_def save_state_def)
  from save_project_omits_tabs_without_image [of "new_tab lib0" lib0 "Some ''blank''" app0 doc a1]
    blank saved loaded kept
  show ?thesis
    by auto
qed

text \<open>
  C6, as stated, fails. The claim counts a stored tab whose image cannot be restored
  among the failing loads and asks that the window be left as it was. On a window with
  two tabs, loading a document whose only stored tab has no image shows the error
  "Failed to load project: No image data found in state." (in the new tab's dialogs),
  yet both former tabs are gone and the load returns \<^verbatim>\<open>True\<close>.
\<close>

theorem failed_tab_load_replaces_tabs:
  "tabs app0 = [(''blank'', new_tab lib0), (''cells'', tab_small)] \<and>
   load_project_from_path lib0 app0 (Parsed (JsonObject doc_no_image)) =
     Returned True
       (app0\<lparr>tabs := [(''lost'', load_failed NoImageData (new_tab lib0))],
              app_status := ProjectLoaded\<rparr>) \<and>
   dialogs (load_failed NoImageData (new_tab lib0)) = [LoadError NoImageData]"
  by (simp add: app0_def load_project_from_path_def contains_tabs_def stored_tabs_def
      doc_no_image_def state_no_image_def load_state_def get_or_def load_failed_def
      update_status_def new_tab_def)

text \<open>
  An exception that no handler catches also leaves the method after line 755 has removed
  the tabs: here \<^verbatim>\<open>cv2.imdecode\<close> raises on an image text that decodes to an empty
  buffer.
\<close>

lemma load_state_imdecode_raises:
  "js_image_b64 state = Some b \<Longrightarrow> b \<noteq> [] \<Longrightarrow> b64decode L b = Some data \<Longrightarrow>
   imdecode L data = Inl e \<Longrightarrow> load_state L s state = Inl e"
  by (simp add: load_state_def)

lemma empty_buffer_load_raises:
  "load_project_from_path lib0 app0 (Parsed (JsonObject doc_empty_buffer)) =
     Raised Cv2Error (app0\<lparr>tabs := []\<rparr>)"
  by (simp add: load_project_from_path_def contains_tabs_def stored_tabs_def
      doc_empty_buffer_def state_no_image_def load_state_def lib0_def raster_decode_def)

text \<open>
  C6, amended. A project load returns \<^verbatim>\<open>False\<close> exactly when the file cannot be read,
  is not JSON, or the parsed value does not contain \<^verbatim>\<open>"tabs"\<close> (the test of line 752);
  the window then keeps its tabs and only gets an error dialog and the status message.
  When the test itself raises (on a number, a truth value or \<^verbatim>\<open>null\<close>) the window is
  untouched as well. When the test succeeds, line 755 removes all tabs before anything
  stored is read. If \<^verbatim>\<open>project_data["tabs"]\<close> cannot be taken or iterated, the exception
  leaves a window without tabs. Otherwise the window holds afterwards, in the stored
  order, only tabs that \<^verbatim>\<open>load_state\<close> filled on fresh tabs: one for every stored tab,
  with the return value \<^verbatim>\<open>True\<close>, if the load returns; those loaded so far if an
  exception escapes. So a tab that was displayed is kept whole or removed, never partly
  overwritten.
\<close>

theorem failed_project_load_keeps_tabs:
  "((\<exists>a'. load_project_from_path L a file = Returned False a') \<longleftrightarrow>
      (file = Unreadable \<or> file = NotJSON \<or> (\<exists>v. file = Parsed v \<and> contains_tabs v = Inr False))) \<and>
   (load_project_from_path L a file = Returned False a' \<longrightarrow>
      tabs a' = tabs a \<and> app_status a' = ErrorLoadingProject \<and>
      (\<exists>e. app_dialogs a' = app_dialogs a @ [LoadError e])) \<and>
   (file = Parsed v \<and> contains_tabs v = Inl e \<longrightarrow>
      load_project_from_path L a file = Raised e a) \<and>
   (file = Parsed v \<and> contains_tabs v = Inr True \<and> stored_tabs v = Inl e \<longrightarrow>
      load_project_from_path L a file = Raised e (a\<lparr>tabs := []\<rparr>)) \<and>
   (file = Parsed v \<and> contains_tabs v = Inr True \<and> stored_tabs v = Inr states \<longrightarrow>
      list_all2 (fresh_load L)
        (take (length (tabs (window (load_project_from_path L a file)))) states)
        (tabs (window (load_project_from_path L a file))) \<and>
      (\<forall>r a'. load_project_from_path L a file = Returned r a' \<longrightarrow>
         r \<and> length (tabs a') = length states))"
proof -
  have cases: "(\<exists>a'. load_project_from_path L a file = Returned False a') \<longleftrightarrow>
      (file = Unreadable \<or> file = NotJSON \<or> (\<exists>v. file = Parsed v \<and> contains_tabs v = Inr False))"
  proof (cases "file")
    case Unreadable
    then show ?thesis by (simp add: load_project_from_path_def project_load_failed_def)
  next
    case NotJSON
    then show ?thesis by (simp add: load_project_from_path_def project_load_failed_def)
  next
    case (Parsed v)
    then show ?thesis using load_project_returns_False [of L a v] by simp
  qed
  have failed: "tabs a' = tabs a \<and> app_status a' = ErrorLoadingProject \<and>
      (\<exists>e. app_dialogs a' = app_dialogs a @ [LoadError e])"
    if f: "load_project_from_path L a file = Returned False a'"
  proof -
    from f cases have "file = Unreadable \<or> file = NotJSON \<or>
        (\<exists>v. file = Parsed v \<and> contains_tabs v = Inr False)"
      by blast
    then have "\<exists>e. a' = a\<lparr>app_dialogs := app_dialogs a @ [LoadError e],
                          app_status := ErrorLoadingProject\<rparr>"
      using f by (auto simp: load_project_from_path_def project_load_failed_def)
    then show ?thesis by auto
  qed
  have test_raises: "load_project_from_path L a file = Raised e a"
    if "file = Parsed v \<and> contains_tabs v = Inl e"
    using that by (simp add: load_project_from_path_def)
  have not_iterable: "load_project_from_path L a file = Raised e (a\<lparr>tabs := []\<rparr>)"
    if "file = Parsed v \<and> contains_tabs v = Inr True \<and> stored_tabs v = Inl e"
    using that by (simp add: load_project_from_path_def)
  have loaded: "list_all2 (fresh_load L)
        (take (length (tabs (window (load_project_from_path L a file)))) states)
        (tabs (window (load_project_from_path L a file))) \<and>
      (\<forall>r a'. load_project_from_path L a file = Returned r a' \<longrightarrow>
         r \<and> length (tabs a') = length states)"
    if h: "file = Parsed v \<and> contains_tabs v = Inr True \<and> stored_tabs v = Inr states"
  proof -
    from h have run: "load_project_from_path L a file = load_tabs L (a\<lparr>tabs := []\<rparr>) states"
      by (simp add: load_project_from_path_def)
    from load_tabs_fresh [of L "a\<lparr>tabs := []\<rparr>" states] obtain new where
      new: "tabs (window (load_tabs L (a\<lparr>tabs := []\<rparr>) states)) = new"
      "list_all2 (fresh_load L) (take (length new) states) new"
      "\<forall>r a'. load_tabs L (a\<lparr>tabs := []\<rparr>) states = Returned r a' \<longrightarrow>
         r \<and> length new = length states"
      by auto
    have "\<forall>r a'. load_tabs L (a\<lparr>tabs := []\<rparr>) states = Returned r a' \<longrightarrow>
        r \<and> length (tabs a') = length states"
    proof (intro allI impI)
      fix r a'
      assume r: "load_tabs L (a\<lparr>tabs := []\<rparr>) states = Returned r a'"
      then have "tabs a' = new" using new(1) by simp
      with new(3) r show "r \<and> length (tabs a') = length states" by blast
    qed
    with new(1,2) show ?thesis unfolding run by blast
  qed
  show ?thesis
  proof (intro conjI)
    show "(\<exists>a'. load_project_from_path L a file = Returned False a') \<longleftrightarrow>
      (file = Unreadable \<or> file = NotJSON \<or> (\<exists>v. file = Parsed v \<and> contains_tabs v = Inr False))"
      by (rule cases)
    show "load_project_from_path L a file = Returned False a' \<longrightarrow>
      tabs a' = tabs a \<and> app_status a' = ErrorLoadingProject \<and>
      (\<exists>e. app_dialogs a' = app_dialogs a @ [LoadError e])"
      using failed by (rule impI)
    show "file = Parsed v \<and> contains_tabs v = Inl e \<longrightarrow>
      load_project_from_path L a file = Raised e a"
      using test_raises by (rule impI)
    show "file = Parsed v \<and> contains_tabs v = Inr True \<and> stored_tabs v = Inl e \<longrightarrow>
      load_project_from_path L a file = Raised e (a\<lparr>tabs := []\<rparr>)"
      using not_iterable by (rule impI)
    show "file = Parsed v \<and> contains_tabs v = Inr True \<and> stored_tabs v = Inr states \<longrightarrow>
      list_all2 (fresh_load L)
        (take (length (tabs (window (load_project_from_path L a file)))) states)
        (tabs (window (load_project_from_path L a file))) \<and>
      (\<forall>r a'. load_project_from_path L a file = Returned r a' \<longrightarrow>
         r \<and> length (tabs a') = length states)"
      using loaded by (rule impI)
  qed
qed

theorem failed_project_load_keeps_tabs_witness:
  "load_project_from_path lib0 app0 (Parsed (JsonObject \<lparr>js_version = Some ''1.0'', js_tabs = None\<rparr>)) =
     Returned False
       (app0\<lparr>app_dialogs := [LoadError InvalidProjectFormat],
              app_status := ErrorLoadingProject\<rparr>) \<and>
   tabs (app0\<lparr>app_dialogs := [LoadError InvalidProjectFormat],
               app_status := ErrorLoadingProject\<rparr>) = tabs app0 \<and>
   load_project_from_path lib0 app0 (Parsed (JsonString ''my tabs'')) =
     Raised TypeError (app0\<lparr>tabs := []\<rparr>) \<and>
   load_project_from_path lib0 app0 (Parsed JsonScalar) = Raised TypeError app0 \<and>
   length (tabs (window (load_project_from_path lib0 app0 (Parsed (JsonObject doc_no_image))))) = 1"
proof -
  let ?none = "\<lparr>js_version = Some ''1.0'', js_tabs = None\<rparr>"
  let ?failed = "app0\<lparr>app_dialogs := [LoadError InvalidProjectFormat],
      app_status := ErrorLoadingProject\<rparr>"
  have run: "load_project_from_path lib0 app0 (Parsed (JsonObject ?none)) = Returned False ?failed"
    by (simp add: load_project_from_path_def contains_tabs_def project_load_failed_def app0_def)
  have str: "contains_tabs (JsonString ''my tabs'') = Inr True \<and>
      stored_tabs (JsonString ''my tabs'') = Inl TypeError"
    by (simp add: contains_tabs_def stored_tabs_def)
  have scalar: "contains_tabs JsonScalar = Inl TypeError"
    by (simp add: contains_tabs_def)
  have doc: "contains_tabs (JsonObject doc_no_image) = Inr True \<and>
      stored_tabs (JsonObject doc_no_image) = Inr [TabObject state_no_image]"
    by (simp add: contains_tabs_def stored_tabs_def doc_no_image_def)
  have out: "load_project_from_path lib0 app0 (Parsed (JsonObject doc_no_image)) =
     Returned True
       (app0\<lparr>tabs := [(''lost'', load_failed NoImageData (new_tab lib0))],
              app_status := ProjectLoaded\<rparr>)"
    by (simp add: app0_def load_project_from_path_def contains_tabs_def stored_tabs_def
        doc_no_image_def state_no_image_def load_state_def get_or_def)
  note none = failed_project_load_keeps_tabs
    [of lib0 app0 "Parsed (JsonObject ?none)" ?failed "JsonObject ?none" TypeError "[]"]
  note string = failed_project_load_keeps_tabs
    [of lib0 app0 "Parsed (JsonString ''my tabs'')" app0 "JsonString ''my tabs''" TypeError "[]"]
  note number = failed_project_load_keeps_tabs
    [of lib0 app0 "Parsed JsonScalar" app0 JsonScalar TypeError "[]"]
  note stored = failed_project_load_keeps_tabs
    [of lib0 app0 "Parsed (JsonObject doc_no_image)" app0 "JsonObject doc_no_image" TypeError
        "[TabObject state_no_image]"]
  have 1: "tabs ?failed = tabs app0"
    using none run by blast
  have 2: "load_project_from_path lib0 app0 (Parsed (JsonString ''my tabs'')) =
      Raised TypeError (app0\<lparr>tabs := []\<rparr>)"
    using string str by blast
  have 3: "load_project_from_path lib0 app0 (Parsed JsonScalar) = Raised TypeError app0"
    using number scalar by blast
  have "length (tabs (app0\<lparr>tabs := [(''lost'', load_failed NoImageData (new_tab lib0))],
      app_status := ProjectLoaded\<rparr>)) = length [TabObject state_no_image]"
    using stored doc out by blast
  then have 4: "length (tabs (window (load_project_from_path lib0 app0
      (Parsed (JsonObject doc_no_image))))) = 1"
    by (simp add: out)
  from run 1 2 3 4 show ?thesis by blast
qed

text \<open>
  When the base64 text decodes but \<^verbatim>\<open>cv2.imdecode\<close> gives \<^verbatim>\<open>None\<close>,
  \<^verbatim>\<open>analyze_image\<close> only sets a status message and returns, and \<^verbatim>\<open>load_state\<close> goes
  on: the dimensions, the counter and the measurements are restored on a tab that has no
  image, and no error dialog is shown.
\<close>

lemma load_state_image_not_decoded:
  assumes "js_image_b64 state = Some b" "b \<noteq> []"
    and "b64decode L b = Some data"
    and "imdecode L data = Inr None"
    and ms: "drawable_json (get_or (js_cell_measurements state) [])"
  shows "load_state L s state =
     Inr (s\<lparr>image_width_um := get_or (js_image_width_um state) 100,
             height_input := str_py L (image_height_um s),
             image_height_um := get_or (js_image_height_um state) 100,
             width_input := str_py L (get_or (js_image_width_um state) 100),
             cell_measurements := map of_json (get_or (js_cell_measurements state) []),
             measurements_table :=
               measurements_table s @ map js_id (get_or (js_cell_measurements state) []),
             next_cell_id := get_or (js_next_cell_id state) 1,
             status := LoadedImage (length (get_or (js_cell_measurements state) []))\<rparr>)"
  using assms(1-4)
  by (simp add: load_state_def Let_def analyze_image_def restore_measurements_eq [OF ms]
      update_status_def)

text \<open>
  C7, as stated, fails: an image that cannot be decoded does not make the project load
  fail. With a stored tab whose image text the base64 decoder rejects, the load returns
  \<^verbatim>\<open>True\<close> and adds the tab, which only carries the error dialog.
\<close>

theorem undecodable_image_load_succeeds:
  "b64decode lib0 ''A'' = None \<and>
   load_project_from_path lib0 app0 (Parsed (JsonObject doc_bad_image)) =
     Returned True
       (app0\<lparr>tabs := [(''broken'', load_failed Base64Error (new_tab lib0))],
              app_status := ProjectLoaded\<rparr>)"
  by (simp add: app0_def load_project_from_path_def contains_tabs_def stored_tabs_def
      doc_bad_image_def state_no_image_def load_state_def get_or_def lib0_def)

text \<open>
  C7, amended. A parsed document fails with "Invalid project file format." (the load
  reports it and returns \<^verbatim>\<open>False\<close>) exactly when the test \<^verbatim>\<open>"tabs" in project_data\<close> is
  false; for a JSON object, exactly when the top-level \<^verbatim>\<open>"tabs"\<close> key is absent. With
  \<^verbatim>\<open>"tabs": []\<close> the load succeeds and leaves no tab. A stored tab whose
  \<^verbatim>\<open>image_b64\<close> is absent, empty or a text that the base64 decoder rejects does not fail the
  project load: \<^verbatim>\<open>load_state\<close> reports it in an error dialog of that tab and restores
  neither its measurements nor its id counter; the tab is added all the same and the load
  goes on with the next stored tab.
\<close>

theorem project_load_fails_iff_no_tabs_key:
  "((\<exists>a'. load_project_from_path L a (Parsed v) = Returned False a') \<longleftrightarrow>
      contains_tabs v = Inr False) \<and>
   ((\<exists>a'. load_project_from_path L a (Parsed (JsonObject d)) = Returned False a') \<longleftrightarrow>
      js_tabs d = None) \<and>
   (js_tabs d = Some (TabList []) \<longrightarrow>
      load_project_from_path L a (Parsed (JsonObject d)) =
        Returned True (a\<lparr>tabs := [], app_status := ProjectLoaded\<rparr>)) \<and>
   (js_image_b64 st = None \<or> js_image_b64 st = Some [] \<or>
    (\<exists>b. js_image_b64 st = Some b \<and> b64decode L b = None) \<longrightarrow>
      (\<exists>e. load_state L s st = Inr (load_failed e s)) \<and>
      (\<forall>e. cell_measurements (load_failed e s) = cell_measurements s \<and>
           next_cell_id (load_failed e s) = next_cell_id s \<and>
           img_color (load_failed e s) = img_color s \<and>
           dialogs (load_failed e s) = dialogs s @ [LoadError e]) \<and>
      (\<exists>e. load_tabs L a (TabObject st # rest) =
           load_tabs L
             (a\<lparr>tabs := tabs a @
                   [(get_or (js_title st) ''Loaded Tab'', load_failed e (new_tab L))]\<rparr>) rest))"
proof -
  have iff: "(\<exists>a'. load_project_from_path L a (Parsed v) = Returned False a') \<longleftrightarrow>
      contains_tabs v = Inr False"
    by (rule load_project_returns_False)
  have key: "(\<exists>a'. load_project_from_path L a (Parsed (JsonObject d)) = Returned False a') \<longleftrightarrow>
      js_tabs d = None"
    using load_project_returns_False [of L a "JsonObject d"] by (simp add: contains_tabs_def)
  have empty: "load_project_from_path L a (Parsed (JsonObject d)) =
        Returned True (a\<lparr>tabs := [], app_status := ProjectLoaded\<rparr>)"
    if "js_tabs d = Some (TabList [])"
    using that by (simp add: load_project_from_path_def contains_tabs_def stored_tabs_def)
  have fields: "\<forall>e. cell_measurements (load_failed e s) = cell_measurements s \<and>
           next_cell_id (load_failed e s) = next_cell_id s \<and>
           img_color (load_failed e s) = img_color s \<and>
           dialogs (load_failed e s) = dialogs s @ [LoadError e]"
    by (simp add: load_failed_def update_status_def)
  have tab: "\<exists>e. \<forall>t. load_state L t st = Inr (load_failed e t)"
    if "js_image_b64 st = None \<or> js_image_b64 st = Some [] \<or>
      (\<exists>b. js_image_b64 st = Some b \<and> b64decode L b = None)"
  proof -
    from that consider "js_image_b64 st = None \<or> js_image_b64 st = Some []"
      | b where "js_image_b64 st = Some b" "b \<noteq> []" "b64decode L b = None"
      by (cases "js_image_b64 st") auto
    then show ?thesis
    proof cases
      case 1
      then show ?thesis using load_state_no_image by blast
    next
      case 2
      then show ?thesis using load_state_bad_base64 by blast
    qed
  qed
  have added: "(\<exists>e. load_state L s st = Inr (load_failed e s)) \<and>
      (\<exists>e. load_tabs L a (TabObject st # rest) =
           load_tabs L
             (a\<lparr>tabs := tabs a @
                   [(get_or (js_title st) ''Loaded Tab'', load_failed e (new_tab L))]\<rparr>) rest)"
    if "js_image_b64 st = None \<or> js_image_b64 st = Some [] \<or>
      (\<exists>b. js_image_b64 st = Some b \<and> b64decode L b = None)"
  proof -
    from tab [OF that] obtain e where e: "\<forall>t. load_state L t st = Inr (load_failed e t)"
      by blast
    then have "load_tabs L a (TabObject st # rest) =
           load_tabs L
             (a\<lparr>tabs := tabs a @
                   [(get_or (js_title st) ''Loaded Tab'', load_failed e (new_tab L))]\<rparr>) rest"
      by simp
    with e show ?thesis by blast
  qed
  from iff key empty fields added show ?thesis by blast
qed

theorem project_load_fails_iff_no_tabs_key_witness:
  "load_project_from_path lib0 app0 (Parsed (JsonObject \<lparr>js_version = None, js_tabs = Some (TabList [])\<rparr>)) =
     Returned True (app0\<lparr>tabs := [], app_status := ProjectLoaded\<rparr>) \<and>
   load_state lib0 tab_small state_no_image = Inr (load_failed NoImageData tab_small) \<and>
   cell_measurements (load_failed NoImageData tab_small) = cell_measurements tab_small"
proof -
  have empty: "js_tabs \<lparr>js_version = None, js_tabs = Some (TabList [])\<rparr> = Some (TabList [])"
    by simp
  have missing: "js_image_b64 state_no_image = None"
    by (simp add: state_no_image_def)
  have run: "load_state lib0 tab_small state_no_image = Inr (load_failed NoImageData tab_small)"
    by (simp add: load_state_def state_no_image_def)
  show ?thesis
    using project_load_fails_iff_no_tabs_key
      [of lib0 app0 _ "\<lparr>js_version = None, js_tabs = Some (TabList [])\<rparr>" state_no_image
          tab_small "[]"]
      empty missing run
    by simp
qed

end
